theory Spec2Isabelle
  imports Complex_Main "HOL-Library.Char_ord" "HOL-Library.List_Lexorder" "HOL-Library.Stream"
begin

section \<open>Login-required middleware (financial/middleware.py)\<close>

text \<open>
  The part of a Django request that \<open>RequireLoginMiddleware.process_request\<close> reads:
  \<open>request.user.is_authenticated\<close>, \<open>request.path_info\<close> and \<open>request.path\<close>.
\<close>

record request =
  is_authenticated :: bool
  path_info :: string
  path :: string

text \<open>
  \<open>redirect_to_login(next=..., login_url=...)\<close> builds a redirect response; the model keeps
  its two arguments. \<open>None\<close> (the request proceeds) is the \<open>None\<close> of the option type.
\<close>

datatype response = RedirectToLogin (next_url: string) (login_url: string)

definition exempt_urls :: "string list" where
  "exempt_urls =
     [''/'', ''/accounts/login/'', ''/accounts/logout/'', ''/accounts/signup/'',
      ''/admin/login/'', ''/admin/logout/'', ''/static/'', ''/media/'', ''/favicon.ico'']"

text \<open>Python's \<open>s.startswith(p)\<close>.\<close>

fun startswith :: "string \<Rightarrow> string \<Rightarrow> bool" where
  "startswith s [] = True"
| "startswith [] (c # p) = False"
| "startswith (d # s) (c # p) = (d = c \<and> startswith s p)"

text \<open>
  The \<open>for exempt_url in self.exempt_urls\<close> loop: \<open>True\<close> when some iteration takes the
  \<open>return None\<close> inside it.
\<close>

fun exempt_loop :: "string \<Rightarrow> string list \<Rightarrow> bool" where
  "exempt_loop current_path [] = False"
| "exempt_loop current_path (exempt_url # rest) =
     (if startswith current_path exempt_url then True else exempt_loop current_path rest)"

text \<open>
  \<open>reverse('login')\<close> is resolved by the project's URL configuration, which is not part of
  the middleware; it enters as the parameter \<open>login\<close>.
\<close>

definition process_request :: "string \<Rightarrow> request \<Rightarrow> response option" where
  "process_request login r =
     (if is_authenticated r then None
      else if exempt_loop (path_info r) exempt_urls then None
      else Some (RedirectToLogin (path r) login))"

text \<open>The claim's list of exempt paths, read off the spec sentence.\<close>

definition claimed_exempt :: "string \<Rightarrow> bool" where
  "claimed_exempt p \<longleftrightarrow>
     p = ''/'' \<or> p = ''/accounts/login/'' \<or> p = ''/accounts/logout/'' \<or> p = ''/accounts/signup/''
     \<or> p = ''/admin/login/'' \<or> p = ''/admin/logout/''
     \<or> startswith p ''/static/'' \<or> startswith p ''/media/'' \<or> p = ''/favicon.ico''"

section \<open>Records read by the analytics utilities (financial/models.py)\<close>

text \<open>
  Python exceptions that the modelled code can raise are values of \<open>py_error\<close>; a function
  that can raise returns \<open>py_error + 'a\<close>, with \<open>Inl\<close> for the exception.
\<close>

datatype py_error = ZeroDivisionError | ValueError | IndexError | TypeError

text \<open>Python's \<open>a / b\<close> on floats, which raises when \<open>b\<close> is zero.\<close>

definition truediv :: "real \<Rightarrow> real \<Rightarrow> py_error + real" where
  "truediv a b = (if b = 0 then Inl ZeroDivisionError else Inr (a / b))"

text \<open>
  A \<open>datetime.date\<close>. \<open>toordinal\<close> follows the standard library: days since 0001-01-01 in the
  proleptic Gregorian calendar, so that \<open>(d1 - d2).days\<close> is the difference of the ordinals.
\<close>

record date =
  year :: int
  month :: int
  day :: int

definition is_leap :: "int \<Rightarrow> bool" where
  "is_leap y \<longleftrightarrow> y mod 4 = 0 \<and> (y mod 100 \<noteq> 0 \<or> y mod 400 = 0)"

definition days_before_year :: "int \<Rightarrow> int" where
  "days_before_year y = (let y1 = y - 1 in y1 * 365 + y1 div 4 - y1 div 100 + y1 div 400)"

definition days_in_month_table :: "int list" where
  "days_in_month_table = [31, 28, 31, 30, 31, 30, 31, 31, 30, 31, 30, 31]"

definition days_before_month :: "int \<Rightarrow> int \<Rightarrow> int" where
  "days_before_month y m =
     sum_list (take (nat (m - 1)) days_in_month_table) + (if m > 2 \<and> is_leap y then 1 else 0)"

definition toordinal :: "date \<Rightarrow> int" where
  "toordinal d = days_before_year (year d) + days_before_month (year d) (month d) + day d"

text \<open>
  \<open>Category\<close>, \<open>Transaction\<close> and \<open>Budget\<close> rows, with the fields the analytics code reads.
  Record fields are global names, so \<open>Transaction.id\<close> is \<open>tx_id\<close>, \<open>Transaction.user\<close> is
  \<open>tx_user\<close>, \<open>Category.id\<close> and \<open>Category.name\<close> are \<open>cat_id\<close> and \<open>cat_name\<close>, and the fields
  of \<open>Budget\<close> carry the prefix \<open>b_\<close>. A \<open>DecimalField\<close> is always read through \<open>float(...)\<close>;
  the model takes the amounts as real numbers and does not round. The time stamps
  \<open>created_at\<close> and \<open>updated_at\<close>, which the ORM maintains by itself, are not modelled.
\<close>

record category =
  cat_id :: int
  cat_name :: string

record transaction =
  tx_id :: int
  tx_user :: int
  account_name :: string
  category :: "category option"
  amount :: real
  transaction_type :: string
  tx_date :: date
  description :: string
  ai_categorized :: bool

record budget =
  b_id :: int
  b_user :: int
  b_category :: category
  b_amount :: real
  b_start_date :: date

section \<open>Budget performance (analytics/ml\_utils/budget\_analyzer.py)\<close>

text \<open>
  The dictionary that \<open>analyze_budget_performance\<close> returns with \<open>'success': True\<close>. Its
  \<open>'message'\<close> is a sentence with formatted numbers and is left out; every other key is a
  field. A result with \<open>'success': False\<close> carries its message only.
\<close>

record performance =
  perf_budget_id :: int
  perf_category :: string
  perf_amount :: real
  spent :: real
  remaining :: real
  percentage_used :: real
  status :: string
  daily_rate :: real
  projected_total :: real
  projected_remaining :: real
  days_elapsed :: int
  days_in_period :: int

datatype budget_result = Failure string | Performance performance

fun success :: "budget_result \<Rightarrow> bool" where
  "success (Failure m) = False"
| "success (Performance p) = True"

text \<open>
  The comprehension selecting the budget's transactions:
  \<open>tx.category and tx.category.id == budget.category.id and tx.transaction_type == 'expense'\<close>.
\<close>

definition in_budget_category :: "budget \<Rightarrow> transaction \<Rightarrow> bool" where
  "in_budget_category b tx \<longleftrightarrow>
     (case category tx of None \<Rightarrow> False
      | Some c \<Rightarrow> cat_id c = cat_id (b_category b) \<and> transaction_type tx = ''expense'')"

text \<open>\<open>today\<close> is \<open>timezone.now().date()\<close>; \<open>None\<close> is a missing budget.\<close>

definition analyze_budget_performance ::
  "date \<Rightarrow> budget option \<Rightarrow> transaction list \<Rightarrow> budget_result" where
  "analyze_budget_performance today budget transactions =
     (case budget of
        None \<Rightarrow> Failure ''No budget or transactions provided''
      | Some b \<Rightarrow>
          if transactions = [] then Failure ''No budget or transactions provided''
          else
            let category_transactions = filter (in_budget_category b) transactions in
            if category_transactions = []
            then Failure ''No transactions found for this budget category''
            else
              let total_spent = sum_list (map amount category_transactions);
                  budget_amount = b_amount b;
                  rem = budget_amount - total_spent;
                  pct = (if budget_amount > 0 then (total_spent / budget_amount) * 100 else 0);
                  st = (if pct > 100 then ''over_budget''
                        else if pct \<ge> 90 then ''at_risk''
                        else if pct \<ge> 75 then ''warning''
                        else ''on_track'');
                  period = 30;
                  elapsed = min period (toordinal today - toordinal (b_start_date b) + 1);
                  rate = (if elapsed > 0 then total_spent / real_of_int elapsed else 0);
                  projected = total_spent + rate * real_of_int (period - elapsed)
              in Performance
                   \<lparr>perf_budget_id = b_id b, perf_category = cat_name (b_category b),
                    perf_amount = budget_amount, spent = total_spent, remaining = rem,
                    percentage_used = pct, status = st, daily_rate = rate,
                    projected_total = projected,
                    projected_remaining = budget_amount - projected,
                    days_elapsed = elapsed, days_in_period = period\<rparr>)"

section \<open>Cash-flow insights (analytics/ml\_utils/spending\_analyzer.py)\<close>

text \<open>
  An insight dictionary. The message of the source is an f-string; the model keeps which
  sentence it is and the numbers it formats: \<open>SavedOnly\<close> and \<open>GreatJob\<close> are the two
  sentences that print \<open>net_flow / total_income * 100\<close> as a percentage of income.
\<close>

datatype insight_message =
    CategoryMessage string
  | ExpensesExceedIncome real
  | SavedOnly real real
  | GreatJob real real

record insight =
  insight_type :: string
  message :: insight_message
  priority :: string

fun percentage_of_income :: "insight \<Rightarrow> bool" where
  "percentage_of_income i =
     (case message i of SavedOnly a p \<Rightarrow> True | GreatJob a p \<Rightarrow> True | _ \<Rightarrow> False)"

definition total_of_type :: "string \<Rightarrow> transaction list \<Rightarrow> real" where
  "total_of_type ty transactions =
     sum_list (map amount (filter (\<lambda>tx. transaction_type tx = ty) transactions))"

text \<open>
  \<open>generate_insights\<close>. The first argument is \<open>category_analysis.get('insights', [])\<close>, the
  sentences returned by the pandas code of \<open>analyze_spending_by_category\<close>; they are wrapped
  and passed on unchanged. The cash-flow part is modelled in full, with the two divisions
  by \<open>total_income\<close> as Python divisions that can raise.
\<close>

definition generate_insights :: "string list \<Rightarrow> transaction list \<Rightarrow> py_error + insight list" where
  "generate_insights category_insights transactions =
     (let insights = map (\<lambda>m. \<lparr>insight_type = ''category_trend'',
                                message = CategoryMessage m, priority = ''medium''\<rparr>)
                         category_insights;
          total_income = total_of_type ''income'' transactions;
          total_expenses = total_of_type ''expense'' transactions;
          net_flow = total_income - total_expenses
      in if net_flow < 0 then
           Inr (insights @ [\<lparr>insight_type = ''cash_flow'',
                              message = ExpensesExceedIncome \<bar>net_flow\<bar>, priority = ''high''\<rparr>])
         else if net_flow > 0 \<and> net_flow < total_income * 0.1 then
           (case truediv net_flow total_income of
              Inl e \<Rightarrow> Inl e
            | Inr r \<Rightarrow> Inr (insights @ [\<lparr>insight_type = ''cash_flow'',
                               message = SavedOnly net_flow (r * 100), priority = ''medium''\<rparr>]))
         else if net_flow > total_income * 0.2 then
           (case truediv net_flow total_income of
              Inl e \<Rightarrow> Inl e
            | Inr r \<Rightarrow> Inr (insights @ [\<lparr>insight_type = ''cash_flow'',
                               message = GreatJob net_flow (r * 100), priority = ''low''\<rparr>]))
         else Inr insights)"

section \<open>Anomaly detection (analytics/ml\_utils/spending\_analyzer.py)\<close>

text \<open>
  The settings of \<open>UserProfile\<close> that the analytics code reads. \<open>SpendingAnalyzer\<close> holds an
  optional user and reads the profile as \<open>self.user.userprofile\<close> inside \<open>try\<close>; \<open>None\<close> in
  the field \<open>userprofile\<close> stands for that attribute access raising, which the bare
  \<open>except\<close> turns into the defaults. (The model \<open>UserProfile\<close> declares
  \<open>related_name='profile'\<close>, so with the models of this repository the access always raises.)
\<close>

record profile =
  enable_ai_insights :: bool
  enable_ai_categorization :: bool
  anomaly_detection_sensitivity :: real
  anomaly_min_amount :: real

record user =
  userprofile :: "profile option"

text \<open>
  A row of the data frame built by \<open>prepare_transaction_data\<close>. The columns \<open>month\<close>, \<open>year\<close>,
  \<open>day_of_week\<close>, \<open>day_of_month\<close>, \<open>week_of_year\<close> and \<open>quarter\<close> are functions of the date, and
  \<open>transaction_type\<close> and \<open>description\<close> are copies no modelled function reads; the row keeps
  the date instead.
\<close>

record row =
  row_id :: int
  row_date :: date
  row_amount :: real
  row_category_id :: "int option"
  row_category_name :: string

definition row_of :: "transaction \<Rightarrow> row" where
  "row_of tx = \<lparr>row_id = tx_id tx, row_date = tx_date tx, row_amount = amount tx,
                 row_category_id = map_option cat_id (category tx),
                 row_category_name = (case category tx of None \<Rightarrow> ''Uncategorized''
                                      | Some c \<Rightarrow> cat_name c)\<rparr>"

definition prepare_transaction_data :: "transaction list \<Rightarrow> row list" where
  "prepare_transaction_data transactions = map row_of transactions"

text \<open>
  The \<open>if self.user: try ... except ... else ...\<close> block: the pair \<open>(min_amount, sensitivity)\<close>.
  The argument \<open>sensitivity\<close> is the optional override.
\<close>

definition anomaly_settings :: "user option \<Rightarrow> real option \<Rightarrow> real \<times> real" where
  "anomaly_settings u sensitivity =
     (case u of
        None \<Rightarrow> (100, case sensitivity of None \<Rightarrow> 1 | Some s \<Rightarrow> s)
      | Some usr \<Rightarrow>
          (case userprofile usr of
             None \<Rightarrow> (100, case sensitivity of None \<Rightarrow> 1 | Some s \<Rightarrow> s)
           | Some p \<Rightarrow> (anomaly_min_amount p,
                        case sensitivity of None \<Rightarrow> anomaly_detection_sensitivity p
                        | Some s \<Rightarrow> s)))"

definition min_amount_threshold :: "user option \<Rightarrow> real" where
  "min_amount_threshold u = fst (anomaly_settings u None)"

text \<open>
  \<open>df['category_id'].map(df['category_id'].value_counts())\<close>: the number of rows with the same
  category id, and NaN (\<open>None\<close>) for a row without category.
\<close>

definition category_frequency :: "row list \<Rightarrow> row \<Rightarrow> nat option" where
  "category_frequency df r =
     (case row_category_id r of
        None \<Rightarrow> None
      | Some c \<Rightarrow> Some (length (filter (\<lambda>r'. row_category_id r' = Some c) df)))"

text \<open>
  scikit-learn's \<open>IsolationForest\<close> is outside the repository. It enters as a function of
  the \<open>random_state\<close>, the \<open>contamination\<close> and the feature rows \<open>(amount, category_frequency)\<close>,
  returning the labels of \<open>fit_predict\<close>, or \<open>None\<close> when it raises.
\<close>

type_synonym isolation_forest = "nat \<Rightarrow> real \<Rightarrow> (real \<times> nat option) list \<Rightarrow> int list option"

text \<open>
  \<open>detect_spending_anomalies\<close>. Assigning a label column of the wrong length raises inside
  the \<open>try\<close>, so that case returns the empty list as every other exception does.
\<close>

definition detect_spending_anomalies ::
  "isolation_forest \<Rightarrow> user option \<Rightarrow> real option \<Rightarrow> transaction list \<Rightarrow> int list" where
  "detect_spending_anomalies fit_predict u sensitivity transactions =
     (let expense_transactions = filter (\<lambda>tx. transaction_type tx = ''expense'') transactions in
      if length expense_transactions < 10 then []
      else
        let (min_amount, sens) = anomaly_settings u sensitivity;
            expense_transactions = filter (\<lambda>tx. amount tx \<ge> min_amount) expense_transactions;
            df = prepare_transaction_data expense_transactions
        in if df = [] then []
           else
             let X = map (\<lambda>r. (row_amount r, category_frequency df r)) df in
             (case fit_predict 42 (0.05 * sens) X of
                None \<Rightarrow> []
              | Some labels \<Rightarrow>
                  if length labels \<noteq> length df then []
                  else map (row_id \<circ> fst) (filter (\<lambda>(r, l). l = - 1) (zip df labels))))"

text \<open>
  What the detection reads of a transaction, and the detection written as a function of
  these triples alone; \<open>detect_from_keys\<close> below shows that the two agree.
\<close>

definition anomaly_key :: "transaction \<Rightarrow> int \<times> real \<times> int option" where
  "anomaly_key tx = (tx_id tx, amount tx, map_option cat_id (category tx))"

definition flagged_from ::
  "isolation_forest \<Rightarrow> real \<Rightarrow> real \<Rightarrow> (int \<times> real \<times> int option) list \<Rightarrow> int list" where
  "flagged_from fit_predict m sens ks =
     (if length ks < 10 then []
      else
        let ks' = filter (\<lambda>k. fst (snd k) \<ge> m) ks in
        if ks' = [] then []
        else
          let X = map (\<lambda>k. (fst (snd k),
                     case snd (snd k) of None \<Rightarrow> None
                     | Some c \<Rightarrow> Some (length (filter (\<lambda>k'. snd (snd k') = Some c) ks')))) ks' in
          (case fit_predict 42 (0.05 * sens) X of
             None \<Rightarrow> []
           | Some labels \<Rightarrow>
               if length labels \<noteq> length ks' then []
               else map (fst \<circ> fst) (filter (\<lambda>(k, l). l = - 1) (zip ks' labels))))"

section \<open>The anomalies endpoint (analytics/views.py, get\_anomalies)\<close>

text \<open>
  Python's \<open>random\<close> module. The state of the generator is the sequence of raw numbers it
  will produce; \<open>randbelow\<close> takes the next one. \<open>choice\<close> and \<open>randint\<close> are the standard
  library's definitions on top of \<open>randbelow\<close>, and \<open>random_sample\<close> is the pool algorithm
  that \<open>random.sample\<close> runs on a population of at most 21 elements, called with
  \<open>k \<le> len(population)\<close>.
\<close>

type_synonym rng = "nat stream"

definition randbelow :: "rng \<Rightarrow> nat \<Rightarrow> nat \<times> rng" where
  "randbelow g n = (shd g mod n, stl g)"

fun sample_pool :: "rng \<Rightarrow> 'a list \<Rightarrow> nat \<Rightarrow> nat \<Rightarrow> 'a list \<times> rng" where
  "sample_pool g pool n 0 = ([], g)"
| "sample_pool g pool n (Suc k) =
     (let (j, g') = randbelow g n;
          (rest, g'') = sample_pool g' (pool[j := pool ! (n - 1)]) (n - 1) k
      in (pool ! j # rest, g''))"

definition random_sample :: "rng \<Rightarrow> 'a list \<Rightarrow> nat \<Rightarrow> 'a list \<times> rng" where
  "random_sample g population k = sample_pool g population (length population) k"

definition choice :: "rng \<Rightarrow> 'a list \<Rightarrow> 'a \<times> rng" where
  "choice g seq = (let (j, g') = randbelow g (length seq) in (seq ! j, g'))"

definition randint :: "rng \<Rightarrow> int \<Rightarrow> int \<Rightarrow> int \<times> rng" where
  "randint g a b = (let (j, g') = randbelow g (nat (b - a + 1)) in (a + int j, g'))"

record anomaly_entry =
  entry_id :: nat
  entry_date :: date
  entry_description :: string
  entry_category :: string
  entry_amount :: real
  entry_account :: string
  entry_reason :: string
  entry_confidence :: int

record pagination =
  total_items :: nat
  total_pages :: nat
  current_page :: int
  items_per_page :: nat

datatype anomalies_response =
    AnomaliesMessage string
  | AnomaliesPage "anomaly_entry list" pagination

fun listed :: "anomalies_response \<Rightarrow> anomaly_entry list" where
  "listed (AnomaliesMessage m) = []"
| "listed (AnomaliesPage es p) = es"

definition reasons :: "string list" where
  "reasons = [''Unusually high amount for this category'',
              ''Transaction frequency is higher than normal'',
              ''First transaction with this merchant'',
              ''Amount significantly different from previous patterns'',
              ''Irregular transaction timing'']"

text \<open>
  The loop \<open>for i, transaction in enumerate(sample_transactions)\<close>; the date stays a date
  where the source formats it with \<open>strftime\<close>.
\<close>

fun sample_entries :: "rng \<Rightarrow> nat \<Rightarrow> transaction list \<Rightarrow> anomaly_entry list \<times> rng" where
  "sample_entries g i [] = ([], g)"
| "sample_entries g i (tx # rest) =
     (let (reason, g1) = choice g reasons;
          (confidence, g2) = randint g1 65 95;
          (entries, g3) = sample_entries g2 (Suc i) rest
      in (\<lparr>entry_id = i + 1, entry_date = tx_date tx, entry_description = description tx,
            entry_category = (case category tx of None \<Rightarrow> ''Uncategorized'' | Some c \<Rightarrow> cat_name c),
            entry_amount = amount tx, entry_account = account_name tx,
            entry_reason = reason, entry_confidence = confidence\<rparr> # entries, g3))"

text \<open>
  \<open>get_anomalies\<close>, from the profile returned by \<open>get_or_create\<close>, the \<open>page\<close> parameter and
  the list \<open>transactions\<close> that the query returns (the user's stored transactions of the time
  frame, latest first). \<open>sample\<close> is \<open>random.sample\<close>; the generator state goes in and comes
  out.
\<close>

definition get_anomalies ::
  "(rng \<Rightarrow> transaction list \<Rightarrow> nat \<Rightarrow> transaction list \<times> rng) \<Rightarrow>
   rng \<Rightarrow> profile \<Rightarrow> int \<Rightarrow> transaction list \<Rightarrow> anomalies_response \<times> rng" where
  "get_anomalies sample g prof page transactions =
     (if \<not> enable_ai_insights prof
      then (AnomaliesMessage ''Anomaly detection is disabled in your profile settings.'', g)
      else if length transactions < 5
      then (AnomaliesMessage ''Need at least 5 transactions for anomaly detection.'', g)
      else
        let anomaly_count = min (length transactions div 5) 20;
            (sample_transactions, g1) = sample g transactions anomaly_count;
            (anomalies, g2) = sample_entries g1 0 sample_transactions;
            per_page = 10;
            pages = (length anomalies + per_page - 1) div per_page;
            page' = max 1 (min page (int pages));
            start_idx = nat (page' - 1) * per_page
        in (AnomaliesPage (take per_page (drop start_idx anomalies))
              \<lparr>total_items = length anomalies, total_pages = pages,
               current_page = page', items_per_page = per_page\<rparr>, g2))"

section \<open>Budget recommendations (analytics/ml\_utils/budget\_analyzer.py)\<close>

text \<open>
  The month of a date as pandas' \<open>to_period('M')\<close> orders it: a number that grows by one
  from each month to the next.
\<close>

definition period_of :: "date \<Rightarrow> int" where
  "period_of d = year d * 12 + (month d - 1)"

text \<open>A row of \<open>expenses_data\<close>; its \<open>month\<close> and \<open>year\<close> columns are read off the date.\<close>

record expense_row =
  er_date :: date
  er_amount :: real
  er_category_id :: int
  er_category_name :: string

definition categorized_expense :: "transaction \<Rightarrow> bool" where
  "categorized_expense tx \<longleftrightarrow> transaction_type tx = ''expense'' \<and> category tx \<noteq> None"

definition expenses_data :: "transaction list \<Rightarrow> expense_row list" where
  "expenses_data expense_transactions =
     List.map_filter
       (\<lambda>tx. case category tx of
                None \<Rightarrow> None
              | Some c \<Rightarrow> Some \<lparr>er_date = tx_date tx, er_amount = amount tx,
                                er_category_id = cat_id c, er_category_name = cat_name c\<rparr>)
       expense_transactions"

text \<open>\<open>df['month_year'].nunique()\<close>, raised to 1 when it is smaller.\<close>

definition unique_months :: "expense_row list \<Rightarrow> nat" where
  "unique_months df =
     (let n = length (remdups (map (\<lambda>r. period_of (er_date r)) df)) in if n < 1 then 1 else n)"

text \<open>
  \<open>df.groupby('category_name')['amount'].sum() / unique_months\<close>: one pair per category
  name, the names in sorted order as \<open>groupby\<close> returns them.
\<close>

definition category_total :: "expense_row list \<Rightarrow> string \<Rightarrow> real" where
  "category_total df name = sum_list (map er_amount (filter (\<lambda>r. er_category_name r = name) df))"

definition category_avgs :: "expense_row list \<Rightarrow> (string \<times> real) list" where
  "category_avgs df =
     map (\<lambda>name. (name, category_total df name / real (unique_months df)))
         (sort (remdups (map er_category_name df)))"

text \<open>
  The dictionary \<open>current_budget_amounts\<close>, filled in the order of the list, so that a later
  budget of the same category name replaces an earlier one. An absent list of budgets is
  the empty list.
\<close>

definition current_budget_amounts :: "budget list \<Rightarrow> (string \<rightharpoonup> real)" where
  "current_budget_amounts current_budgets =
     foldl (\<lambda>m b. m(cat_name (b_category b) \<mapsto> b_amount b)) Map.empty current_budgets"

text \<open>A recommendation dictionary, without its \<open>'message'\<close> sentence.\<close>

record recommendation =
  rec_category :: string
  current_amount :: real
  recommended_amount :: real
  average_spending :: real
  adjustment :: string

text \<open>One pass of the loop over \<open>category_avgs.items()\<close>; \<open>None\<close> is \<open>continue\<close>.\<close>

definition recommend :: "(string \<rightharpoonup> real) \<Rightarrow> string \<times> real \<Rightarrow> recommendation option" where
  "recommend amounts item =
     (let cat = fst item; avg_spend = snd item in
      if avg_spend < 100 then None
      else
        let recommended = avg_spend * 1.1;
            current = (case amounts cat of None \<Rightarrow> 0 | Some a \<Rightarrow> a)
        in if current > 0 then
             (if recommended > current * 1.2 then
                Some \<lparr>rec_category = cat, current_amount = current,
                      recommended_amount = recommended, average_spending = avg_spend,
                      adjustment = ''increase''\<rparr>
              else if current > recommended * 1.2 then
                Some \<lparr>rec_category = cat, current_amount = current,
                      recommended_amount = recommended, average_spending = avg_spend,
                      adjustment = ''decrease''\<rparr>
              else None)
           else
             Some \<lparr>rec_category = cat, current_amount = current,
                   recommended_amount = recommended, average_spending = avg_spend,
                   adjustment = ''new''\<rparr>)"

text \<open>
  The result dictionary: with \<open>'success': False\<close> it has a message and the empty
  recommendation list, with \<open>'success': True\<close> the list of recommendations (its message
  only states their number).
\<close>

datatype recommendations_result = NoRecommendations string | Recommendations "recommendation list"

fun rec_success :: "recommendations_result \<Rightarrow> bool" where
  "rec_success (NoRecommendations m) = False"
| "rec_success (Recommendations rs) = True"

fun recommendations :: "recommendations_result \<Rightarrow> recommendation list" where
  "recommendations (NoRecommendations m) = []"
| "recommendations (Recommendations rs) = rs"

text \<open>
  \<open>generate_budget_recommendations\<close>. The data frame \<open>recent_df\<close> of the source is computed
  and never read, so the current date has no influence. \<open>list.sort(key, reverse=True)\<close> is a
  stable sort by descending key.
\<close>

definition generate_budget_recommendations ::
  "transaction list \<Rightarrow> budget list \<Rightarrow> recommendations_result" where
  "generate_budget_recommendations transactions current_budgets =
     (if transactions = [] then NoRecommendations ''Not enough transaction history''
      else
        let expense_transactions = filter categorized_expense transactions in
        if length expense_transactions < 5
        then NoRecommendations ''Not enough categorized expense transactions''
        else
          let df = expenses_data expense_transactions;
              amounts = current_budget_amounts current_budgets;
              recs = List.map_filter (recommend amounts) (category_avgs df)
          in Recommendations (sort_key (\<lambda>r. - recommended_amount r) recs))"

text \<open>The quantities the recommendations are stated in.\<close>

definition average_monthly_spending :: "transaction list \<Rightarrow> string \<Rightarrow> real" where
  "average_monthly_spending transactions name =
     (let df = expenses_data (filter categorized_expense transactions)
      in category_total df name / real (unique_months df))"

definition current_budget_amount :: "budget list \<Rightarrow> string \<Rightarrow> real" where
  "current_budget_amount current_budgets name =
     (case current_budget_amounts current_budgets name of None \<Rightarrow> 0 | Some a \<Rightarrow> a)"

section \<open>Spending forecast (analytics/ml\_utils/spending\_analyzer.py, analytics/views.py)\<close>

text \<open>
  A fit of a scikit-learn estimator is an effect of the code; a function on the forecast
  path returns, next to its value, the list of the estimator fits it has performed.
\<close>

datatype estimator_call = NaiveBayesFit | IsolationForestFit | RandomForestFit

record prediction =
  pred_month :: int
  pred_amount :: real

text \<open>
  \<open>df.groupby('month_year')['amount'].sum()\<close>: the months present, in ascending order, each
  with its total.
\<close>

definition monthly_totals :: "row list \<Rightarrow> (int \<times> real) list" where
  "monthly_totals df =
     map (\<lambda>p. (p, sum_list (map row_amount (filter (\<lambda>r. period_of (row_date r) = p) df))))
         (sort (remdups (map (\<lambda>r. period_of (row_date r)) df)))"

definition mean :: "real list \<Rightarrow> real" where
  "mean xs = sum_list xs / real (length xs)"

text \<open>\<open>monthly_totals.tail(3).mean()\<close> and the \<open>trend_factor\<close> of the source.\<close>

definition tail3_mean :: "real list \<Rightarrow> real" where
  "tail3_mean totals = mean (drop (length totals - 3) totals)"

definition trend_factor :: "real list \<Rightarrow> real" where
  "trend_factor totals =
     (if length totals \<ge> 6 then
        (let recent = tail3_mean totals;
             older = mean (take 3 (drop (length totals - 6) totals))
         in if older > 0 then recent / older else 1)
      else 1)"

text \<open>
  \<open>predict_monthly_spending\<close>. The label \<open>'%b %Y'\<close> of a predicted month is kept as the month
  itself. The method performs no estimator fit on any path.
\<close>

definition predict_monthly_spending ::
  "transaction list \<Rightarrow> nat \<Rightarrow> prediction list \<times> estimator_call list" where
  "predict_monthly_spending transactions months_ahead =
     (let expense_transactions = filter (\<lambda>tx. transaction_type tx = ''expense'') transactions in
      if length expense_transactions < 3 then ([], [])
      else
        let df = prepare_transaction_data expense_transactions in
        if df \<noteq> [] then
          (let totals = monthly_totals df in
           if length totals < 3 then ([], [])
           else
             let avg_spending = tail3_mean (map snd totals);
                 trend = trend_factor (map snd totals);
                 last_month = fst (last totals)
             in (map (\<lambda>i. \<lparr>pred_month = last_month + int i,
                            pred_amount = avg_spending * trend ^ i\<rparr>)
                     [1..<months_ahead + 1], []))
        else ([], []))"

datatype forecast_response = ForecastFailure string | Forecast "prediction list"

text \<open>
  The view \<open>spending_forecast\<close>, from the profile and the user's stored transactions, and
  the forecast that the view \<open>spending_predictions\<close> puts into its page.
\<close>

definition spending_forecast ::
  "profile \<Rightarrow> transaction list \<Rightarrow> forecast_response \<times> estimator_call list" where
  "spending_forecast prof transactions =
     (if \<not> enable_ai_insights prof
      then (ForecastFailure ''AI insights are disabled in your profile settings.'', [])
      else if length transactions < 10
      then (ForecastFailure ''Not enough transaction history for forecasting.'', [])
      else
        let (forecast, calls) = predict_monthly_spending transactions 3
        in (Forecast forecast, calls))"

definition spending_predictions ::
  "transaction list \<Rightarrow> prediction list \<times> estimator_call list" where
  "spending_predictions transactions = predict_monthly_spending transactions 6"

text \<open>
  \<open>SpendingPredictor.train_model\<close> of analytics/ml\_utils.py, the one place that fits a
  \<open>RandomForestRegressor\<close>; only whether it trains, and the fit it performs, are modelled.
  No view calls it.
\<close>

definition train_model :: "transaction list \<Rightarrow> bool \<times> estimator_call list" where
  "train_model stored =
     (let transactions = filter (\<lambda>tx. transaction_type tx = ''expense'') stored in
      if transactions = [] \<or> length transactions < 30 then (False, [])
      else (True, [RandomForestFit]))"

text \<open>The monthly totals that the forecast of a transaction list is computed from.\<close>

definition expense_totals :: "transaction list \<Rightarrow> (int \<times> real) list" where
  "expense_totals transactions =
     monthly_totals (prepare_transaction_data
        (filter (\<lambda>tx. transaction_type tx = ''expense'') transactions))"

section \<open>Transaction categorizer (analytics/ml\_utils/transaction\_categorizer.py)\<close>

text \<open>
  \<open>_preprocess_text\<close>. Strings are byte strings here, so the model is exact on ASCII
  descriptions: \<open>lower_char\<close> is \<open>str.lower\<close>, \<open>kept\<close> the class \<open>[a-z0-9\s]\<close>, \<open>collapse\<close> the
  substitution of \<open>\s+\<close> by one blank and \<open>strip\<close> the method \<open>str.strip\<close>.
\<close>

definition is_space :: "char \<Rightarrow> bool" where
  "is_space c \<longleftrightarrow> (let n = (of_char c :: nat) in (9 \<le> n \<and> n \<le> 13) \<or> (28 \<le> n \<and> n \<le> 32))"

definition lower_char :: "char \<Rightarrow> char" where
  "lower_char c = (let n = (of_char c :: nat) in if 65 \<le> n \<and> n \<le> 90 then char_of (n + 32) else c)"

definition kept :: "char \<Rightarrow> bool" where
  "kept c \<longleftrightarrow>
     (let n = (of_char c :: nat) in (97 \<le> n \<and> n \<le> 122) \<or> (48 \<le> n \<and> n \<le> 57)) \<or> is_space c"

fun collapse :: "string \<Rightarrow> string" where
  "collapse [] = []"
| "collapse [c] = (if is_space c then [CHR '' ''] else [c])"
| "collapse (c # d # cs) =
     (if is_space c \<and> is_space d then collapse (d # cs)
      else (if is_space c then CHR '' '' else c) # collapse (d # cs))"

definition strip :: "string \<Rightarrow> string" where
  "strip s = rev (dropWhile is_space (rev (dropWhile is_space s)))"

definition preprocess_text :: "string \<Rightarrow> string" where
  "preprocess_text text =
     (if text = [] then []
      else strip (collapse (map (\<lambda>c. if kept c then c else CHR '' '') (map lower_char text))))"

text \<open>
  The fitted scikit-learn pipeline, as far as \<open>predict\<close> reads it: the attribute \<open>classes_\<close> (here \<open>model_classes\<close>)
  and \<open>predict_proba([text])[0]\<close> as a function of the text.
\<close>

record nb_model =
  model_classes :: "int list"
  predict_proba :: "string \<Rightarrow> real list"

text \<open>
  The dictionary that \<open>joblib.dump\<close> writes, and the file at \<open>model_path\<close>: absent, present
  but not loadable (\<open>joblib.load\<close> raises), or holding such a dictionary. \<open>joblib\<close> is taken to
  store and return the dictionary as it is.
\<close>

record model_data =
  md_model :: nb_model
  md_categories :: "int \<rightharpoonup> string"
  md_category_id_map :: "string \<rightharpoonup> int"

datatype model_file = NoFile | Unreadable | Stored model_data

text \<open>A \<open>TransactionCategorizer\<close> object together with the file at its \<open>model_path\<close>.\<close>

record categorizer =
  model :: "nb_model option"
  categories :: "int \<rightharpoonup> string"
  category_id_map :: "string \<rightharpoonup> int"
  disk :: model_file

definition new_categorizer :: "model_file \<Rightarrow> categorizer" where
  "new_categorizer file =
     \<lparr>model = None, categories = Map.empty, category_id_map = Map.empty, disk = file\<rparr>"

definition min_confidence :: real where
  "min_confidence = 0.35"

definition save_model :: "categorizer \<Rightarrow> categorizer" where
  "save_model s =
     (case model s of
        None \<Rightarrow> s
      | Some m \<Rightarrow> s\<lparr>disk := Stored \<lparr>md_model = m, md_categories = categories s,
                                    md_category_id_map = category_id_map s\<rparr>\<rparr>)"

definition load_model :: "categorizer \<Rightarrow> bool \<times> categorizer" where
  "load_model s =
     (case disk s of
        NoFile \<Rightarrow> (False, s)
      | Unreadable \<Rightarrow> (False, s)
      | Stored d \<Rightarrow> (True, s\<lparr>model := Some (md_model d), categories := md_categories d,
                              category_id_map := md_category_id_map d\<rparr>))"

text \<open>
  The loop of \<open>train\<close> over the transactions: the samples (preprocessed description and
  label) and the two dictionaries.
\<close>

fun train_loop ::
  "transaction list \<Rightarrow> (string \<times> int) list \<times> (int \<rightharpoonup> string) \<times> (string \<rightharpoonup> int) \<Rightarrow>
   (string \<times> int) list \<times> (int \<rightharpoonup> string) \<times> (string \<rightharpoonup> int)" where
  "train_loop [] acc = acc"
| "train_loop (tx # rest) (samples, cats, ids) =
     (case category tx of
        None \<Rightarrow> train_loop rest (samples, cats, ids)
      | Some c \<Rightarrow>
          train_loop rest
            (samples @ [(preprocess_text (description tx), cat_id c)],
             cats(cat_id c \<mapsto> cat_name c), ids(cat_name c \<mapsto> cat_id c)))"

text \<open>
  Building the pipeline, \<open>train_test_split\<close> with \<open>random_state=42\<close> and \<open>fit\<close> are library
  code: a function from the samples to the fitted model, or \<open>None\<close> when the fit raises.
\<close>

type_synonym pipeline_fit = "(string \<times> int) list \<Rightarrow> nb_model option"

text \<open>
  \<open>train\<close> returns \<open>None\<close>, \<open>False\<close> or \<open>True\<close>, and the categorizer it leaves behind.
\<close>

definition train ::
  "pipeline_fit \<Rightarrow> categorizer \<Rightarrow> transaction list \<Rightarrow> bool \<Rightarrow>
   py_error + (bool option \<times> categorizer)" where
  "train fit s transactions force_retrain =
     (if model s \<noteq> None \<and> \<not> force_retrain then Inr (None, s)
      else if disk s \<noteq> NoFile \<and> \<not> force_retrain then Inr (None, snd (load_model s))
      else
        let (samples, cats, ids) = train_loop transactions ([], Map.empty, category_id_map s);
            s1 = s\<lparr>categories := cats, category_id_map := ids\<rparr>
        in if length samples < 10 then Inr (Some False, s1)
           else (case fit samples of
                   None \<Rightarrow> Inl ValueError
                 | Some m \<Rightarrow> Inr (Some True, save_model (s1\<lparr>model := Some m\<rparr>))))"

text \<open>The first index of the largest element, as \<open>np.argmax\<close> returns it.\<close>

definition argmax :: "real list \<Rightarrow> nat" where
  "argmax xs = length (takeWhile (\<lambda>x. x \<noteq> Max (set xs)) xs)"

text \<open>The start of \<open>predict\<close>: a categorizer without a model tries to load one.\<close>

definition ensure_model :: "categorizer \<Rightarrow> categorizer" where
  "ensure_model s = (if model s = None then snd (load_model s) else s)"

text \<open>
  \<open>predict\<close> returns the triple \<open>(category_id, category_name, confidence)\<close>. \<open>max\<close> of an empty
  list and an index beyond \<open>classes_\<close> raise.
\<close>

definition predict ::
  "categorizer \<Rightarrow> string \<Rightarrow> py_error + ((int option \<times> string option \<times> real) \<times> categorizer)" where
  "predict s desc =
     (let s1 = ensure_model s in
      case model s1 of
        None \<Rightarrow> Inr ((None, None, 0), s1)
      | Some m \<Rightarrow>
          let processed_text = preprocess_text desc in
          if processed_text = [] then Inr ((None, None, 0), s1)
          else
            (case predict_proba m processed_text of
               [] \<Rightarrow> Inl ValueError
             | p # ps \<Rightarrow>
                 let max_prob = fold max ps p;
                     max_index = argmax (p # ps)
                 in if max_index \<ge> length (model_classes m) then Inl IndexError
                    else
                      let predicted_category_id = model_classes m ! max_index in
                      if max_prob < min_confidence then Inr ((None, None, 0), s1)
                      else Inr ((Some predicted_category_id,
                                 categories s1 predicted_category_id, max_prob), s1)))"

section \<open>The categorization and anomaly views (analytics/views.py)\<close>

text \<open>
  A \<open>SpendingAnomaly\<close> row (\<open>transaction\<close> holds the id of the transaction), and the part of
  the database and file system that the three views touch. A table is the list of its rows,
  in the order in which a query returns them; \<open>request.GET\<close> parameters arrive parsed.
\<close>

record spending_anomaly =
  sa_id :: int
  sa_user :: int
  sa_transaction :: int
  sa_anomaly_score :: real
  sa_description :: string
  is_verified :: bool

record world =
  db_transactions :: "transaction list"
  db_categories :: "category list"
  db_budgets :: "budget list"
  db_anomalies :: "spending_anomaly list"
  db_profiles :: "int \<rightharpoonup> profile"
  stored_model :: model_file

definition default_profile :: profile where
  "default_profile = \<lparr>enable_ai_insights = True, enable_ai_categorization = True,
      anomaly_detection_sensitivity = 1, anomaly_min_amount = 100\<rparr>"

text \<open>\<open>UserProfile.objects.get_or_create(user=request.user)\<close>.\<close>

definition get_or_create :: "world \<Rightarrow> int \<Rightarrow> profile \<times> world" where
  "get_or_create w u =
     (case db_profiles w u of
        Some p \<Rightarrow> (p, w)
      | None \<Rightarrow> (default_profile, w\<lparr>db_profiles := (db_profiles w)(u \<mapsto> default_profile)\<rparr>))"

text \<open>
  The JSON responses that \<open>categorize_transaction\<close> returns. The response of its success
  path is not among them: its dictionary holds \<open>category_id\<close>, the element of the numpy
  array \<open>classes_\<close> that \<open>predict\<close> returned, and the JSON encoder of \<open>JsonResponse\<close> refuses
  a numpy integer with \<open>TypeError\<close>. (The confidence is a numpy float, which the encoder
  accepts, so the responses of \<open>auto_categorize_transactions\<close> are built.)
\<close>

datatype categorize_response =
    TransactionNotFound
  | CategorizationDisabled
  | NoConfidentPrediction int
  | PredictedCategoryMissing int

text \<open>
  \<open>categorize_transaction\<close> for the user \<open>u\<close>. A view returns its response, or the exception
  that ends the request, and the world it leaves. \<open>if not category_id\<close> holds for \<open>None\<close> and
  for the id 0. When the predicted category exists, building the response raises.
\<close>

definition categorize_transaction ::
  "pipeline_fit \<Rightarrow> world \<Rightarrow> int \<Rightarrow> int \<Rightarrow> (py_error + categorize_response) \<times> world" where
  "categorize_transaction fit w u transaction_id =
     (case find (\<lambda>t. tx_id t = transaction_id \<and> tx_user t = u) (db_transactions w) of
        None \<Rightarrow> (Inr TransactionNotFound, w)
      | Some tx \<Rightarrow>
          let (prof, w1) = get_or_create w u in
          if \<not> enable_ai_categorization prof then (Inr CategorizationDisabled, w1)
          else
            let training_transactions =
                  filter (\<lambda>t. tx_user t = u \<and> category t \<noteq> None \<and> tx_id t \<noteq> transaction_id)
                         (db_transactions w1)
            in (case train fit (new_categorizer (stored_model w1)) training_transactions False of
                  Inl e \<Rightarrow> (Inl e, w1)
                | Inr (trained, c1) \<Rightarrow>
                    let w2 = w1\<lparr>stored_model := disk c1\<rparr> in
                    (case predict c1 (description tx) of
                       Inl e \<Rightarrow> (Inl e, w2)
                     | Inr ((category_id, category_name, confidence), c2) \<Rightarrow>
                         (case category_id of
                            None \<Rightarrow> (Inr (NoConfidentPrediction transaction_id), w2)
                          | Some cid \<Rightarrow>
                              if cid = 0 then (Inr (NoConfidentPrediction transaction_id), w2)
                              else
                                (case find (\<lambda>c. cat_id c = cid) (db_categories w2) of
                                   None \<Rightarrow> (Inr (PredictedCategoryMissing transaction_id), w2)
                                 | Some c \<Rightarrow> (Inl TypeError, w2))))))"

text \<open>
  \<open>transaction.save()\<close>: the row with the primary key of the object is replaced by the
  object.
\<close>

definition save_transaction :: "world \<Rightarrow> transaction \<Rightarrow> world" where
  "save_transaction w tx =
     w\<lparr>db_transactions := map (\<lambda>r. if tx_id r = tx_id tx then tx else r) (db_transactions w)\<rparr>"

record auto_result =
  ar_transaction_id :: int
  ar_description :: string
  ar_category_name :: "string option"
  ar_confidence :: real

datatype auto_response =
    AutoDisabled
  | NotEnoughTraining
  | NothingToCategorize
  | AutoCategorized nat nat "auto_result list"

text \<open>
  The loop of \<open>auto_categorize_transactions\<close> over the uncategorized transactions fetched
  before it. An exception ends the loop and keeps what was saved before.
\<close>

fun auto_loop ::
  "categorizer \<Rightarrow> world \<Rightarrow> transaction list \<Rightarrow> auto_result list \<Rightarrow>
   py_error option \<times> world \<times> auto_result list" where
  "auto_loop c w [] results = (None, w, results)"
| "auto_loop c w (tx # rest) results =
     (case predict c (description tx) of
        Inl e \<Rightarrow> (Some e, w, results)
      | Inr ((category_id, category_name, confidence), c') \<Rightarrow>
          (case category_id of
             None \<Rightarrow> auto_loop c' w rest results
           | Some cid \<Rightarrow>
               if cid = 0 then auto_loop c' w rest results
               else
                 (case find (\<lambda>k. cat_id k = cid) (db_categories w) of
                    None \<Rightarrow> auto_loop c' w rest results
                  | Some k \<Rightarrow>
                      auto_loop c'
                        (save_transaction w (tx\<lparr>category := Some k, ai_categorized := True\<rparr>))
                        rest
                        (results @ [\<lparr>ar_transaction_id = tx_id tx,
                                      ar_description = description tx,
                                      ar_category_name = category_name,
                                      ar_confidence = confidence\<rparr>]))))"

definition auto_categorize_transactions ::
  "pipeline_fit \<Rightarrow> world \<Rightarrow> int \<Rightarrow> (py_error + auto_response) \<times> world" where
  "auto_categorize_transactions fit w u =
     (let (prof, w1) = get_or_create w u in
      if \<not> enable_ai_categorization prof then (Inr AutoDisabled, w1)
      else
        let training_transactions =
              filter (\<lambda>t. tx_user t = u \<and> category t \<noteq> None) (db_transactions w1)
        in if length training_transactions < 10 then (Inr NotEnoughTraining, w1)
           else
             let uncategorized =
                   filter (\<lambda>t. tx_user t = u \<and> category t = None) (db_transactions w1)
             in if uncategorized = [] then (Inr NothingToCategorize, w1)
                else
                  (case train fit (new_categorizer (stored_model w1)) training_transactions
                          False of
                     Inl e \<Rightarrow> (Inl e, w1)
                   | Inr (trained, c1) \<Rightarrow>
                       (case auto_loop c1 (w1\<lparr>stored_model := disk c1\<rparr>) uncategorized [] of
                          (Some e, w3, results) \<Rightarrow> (Inl e, w3)
                        | (None, w3, results) \<Rightarrow>
                            (Inr (AutoCategorized (length results) (length uncategorized)
                                    results), w3))))"

text \<open>
  \<open>SpendingAnalyzer.detect_anomalies\<close>: the dictionary of each flagged id, built from the
  first transaction of that id.
\<close>

record anomaly_info =
  an_id :: int
  an_date :: date
  an_description :: string
  an_amount :: real
  an_category :: string
  an_reason :: string

definition detect_anomalies ::
  "isolation_forest \<Rightarrow> user option \<Rightarrow> transaction list \<Rightarrow> anomaly_info list" where
  "detect_anomalies fit_predict u transactions =
     List.map_filter
       (\<lambda>i. case find (\<lambda>t. tx_id t = i) transactions of
               None \<Rightarrow> None
             | Some tx \<Rightarrow>
                 Some \<lparr>an_id = tx_id tx, an_date = tx_date tx, an_description = description tx,
                       an_amount = amount tx,
                       an_category = (case category tx of None \<Rightarrow> ''Uncategorized''
                                      | Some c \<Rightarrow> cat_name c),
                       an_reason = ''Unusual spending pattern''\<rparr>)
       (detect_spending_anomalies fit_predict u None transactions)"

text \<open>The named tuple \<open>Anomaly\<close> of the view \<open>anomaly_detection\<close>.\<close>

record shown_anomaly =
  a_id :: int
  a_transaction :: transaction
  a_type :: string
  a_reason :: string
  a_status :: string
  a_score :: real

text \<open>
  The helper \<open>determine_anomaly_type\<close> only words the type and the reason of an anomaly
  (with formatted numbers); it enters as a function of the transaction and the
  transactions of the period.
\<close>

type_synonym determine_type = "transaction \<Rightarrow> transaction list \<Rightarrow> string \<times> string"

text \<open>The loop that turns the detected anomalies into the list \<open>anomalies_list\<close>.\<close>

fun build_anomalies ::
  "determine_type \<Rightarrow> world \<Rightarrow> int \<Rightarrow> spending_anomaly list \<Rightarrow> transaction list \<Rightarrow>
   anomaly_info list \<Rightarrow> shown_anomaly list \<Rightarrow> shown_anomaly list" where
  "build_anomalies determine w u existing transactions [] acc = acc"
| "build_anomalies determine w u existing transactions (d # rest) acc =
     (case find (\<lambda>t. tx_id t = an_id d \<and> tx_user t = u) (db_transactions w) of
        None \<Rightarrow> build_anomalies determine w u existing transactions rest acc
      | Some tx \<Rightarrow>
          let (st, aid, score) =
                (case find (\<lambda>e. sa_transaction e = tx_id tx) existing of
                   None \<Rightarrow> (''new'', int (length acc) + 1, 0)
                 | Some e \<Rightarrow> (if is_verified e then ''reviewed'' else ''new'', sa_id e,
                              sa_anomaly_score e));
              (ty, reason) = determine tx transactions
          in build_anomalies determine w u existing transactions rest
               (acc @ [\<lparr>a_id = aid, a_transaction = tx, a_type = ty, a_reason = reason,
                        a_status = st, a_score = score\<rparr>]))"

text \<open>
  \<open>SpendingAnomaly.objects.create(...)\<close>, with the next free primary key;
  \<open>anomaly.score or 0.8\<close> replaces a score of 0.
\<close>

definition create_anomaly :: "world \<Rightarrow> int \<Rightarrow> shown_anomaly \<Rightarrow> world" where
  "create_anomaly w u a =
     w\<lparr>db_anomalies := db_anomalies w @
         [\<lparr>sa_id = fold max (map sa_id (db_anomalies w)) 0 + 1, sa_user = u,
           sa_transaction = tx_id (a_transaction a),
           sa_anomaly_score = (if a_score a = 0 then 0.8 else a_score a),
           sa_description = a_reason a, is_verified = False\<rparr>]\<rparr>"

fun save_new_anomalies :: "int \<Rightarrow> int list \<Rightarrow> world \<Rightarrow> shown_anomaly list \<Rightarrow> world" where
  "save_new_anomalies u existing_tx_ids w [] = w"
| "save_new_anomalies u existing_tx_ids w (a # rest) =
     (if tx_id (a_transaction a) \<notin> set existing_tx_ids
      then save_new_anomalies u existing_tx_ids (create_anomaly w u a) rest
      else save_new_anomalies u existing_tx_ids w rest)"

text \<open>
  The transactions of the period that \<open>anomaly_detection\<close> analyses, and the view itself:
  \<open>usr\<close> is \<open>request.user\<close> as the analyzer reads it, \<open>today\<close> the current date, \<open>days\<close> the
  time frame and \<open>status_filter\<close> the requested status. The view returns the filtered list of anomalies
  (its page and statistics are derived from that list) and the world it leaves.
\<close>

definition period_transactions :: "world \<Rightarrow> int \<Rightarrow> date \<Rightarrow> int \<Rightarrow> transaction list" where
  "period_transactions w u today days =
     filter (\<lambda>t. tx_user t = u \<and> toordinal today - days \<le> toordinal (tx_date t)
                 \<and> toordinal (tx_date t) \<le> toordinal today)
            (db_transactions w)"

definition anomaly_detection ::
  "isolation_forest \<Rightarrow> determine_type \<Rightarrow> world \<Rightarrow> int \<Rightarrow> user \<Rightarrow> date \<Rightarrow> int \<Rightarrow> string \<Rightarrow>
   shown_anomaly list \<times> world" where
  "anomaly_detection fit_predict determine w u usr today days status_filter =
     (let transactions = period_transactions w u today days;
          (prof, w1) = get_or_create w u
      in if \<not> enable_ai_insights prof then ([], w1)
         else
           let anomaly_results = detect_anomalies fit_predict (Some usr) transactions;
               existing_anomalies = filter (\<lambda>a. sa_user a = u) (db_anomalies w1);
               existing_tx_ids = map sa_transaction existing_anomalies;
               anomalies_list =
                 build_anomalies determine w1 u existing_anomalies transactions
                   anomaly_results [];
               w2 = save_new_anomalies u existing_tx_ids w1 anomalies_list
           in (if status_filter \<noteq> ''all'' then filter (\<lambda>a. a_status a = status_filter) anomalies_list
               else anomalies_list, w2))"

text \<open>
  What \<open>auto_categorize_transactions\<close> may do to a row: leave it, or give an uncategorized
  row of the user one of the stored categories and mark it as categorized by the model.
\<close>

definition categorized_from :: "int \<Rightarrow> category list \<Rightarrow> transaction \<Rightarrow> transaction \<Rightarrow> bool" where
  "categorized_from u cats t t' \<longleftrightarrow>
     t' = t \<or> (tx_user t = u \<and> category t = None \<and>
               (\<exists>k \<in> set cats. t' = t\<lparr>category := Some k, ai_categorized := True\<rparr>))"

section \<open>Example data\<close>

text \<open>Concrete records on which the theorems below are evaluated.\<close>

definition mk_tx :: "int \<Rightarrow> real \<Rightarrow> string \<Rightarrow> string \<Rightarrow> transaction" where
  "mk_tx i a ty d = \<lparr>tx_id = i, tx_user = 1, account_name = ''Cash'', category = None, amount = a,
     transaction_type = ty, tx_date = \<lparr>year = 2024, month = 3, day = 1\<rparr>, description = d,
     ai_categorized = False\<rparr>"

definition five :: "transaction list" where
  "five = [mk_tx 1 900 ''expense'' ''rent'', mk_tx 2 40 ''expense'' ''food'',
           mk_tx 3 25 ''expense'' ''bus'', mk_tx 4 60 ''expense'' ''books'',
           mk_tx 5 15 ''expense'' ''coffee'']"

definition ten :: "string \<Rightarrow> transaction list" where
  "ten d = [mk_tx 1 900 ''expense'' d, mk_tx 2 140 ''expense'' ''food'',
           mk_tx 3 125 ''expense'' ''bus'', mk_tx 4 160 ''expense'' ''books'',
           mk_tx 5 115 ''expense'' ''coffee'', mk_tx 6 20 ''expense'' ''tea'',
           mk_tx 7 130 ''expense'' ''shoes'', mk_tx 8 110 ''expense'' ''gift'',
           mk_tx 9 105 ''expense'' ''phone'', mk_tx 10 101 ''expense'' ''power'',
           mk_tx 11 5000 ''income'' ''salary'']"

definition on_profile :: profile where
  "on_profile = \<lparr>enable_ai_insights = True, enable_ai_categorization = True,
      anomaly_detection_sensitivity = 1, anomaly_min_amount = 100\<rparr>"

text \<open>A stand-in for the fitted forest: it labels every amount above 500 as an outlier.\<close>

definition threshold_forest :: isolation_forest where
  "threshold_forest seed c X = Some (map (\<lambda>(a, fr). if a > 500 then - 1 else 1) X)"

definition groceries :: category where
  "groceries = \<lparr>cat_id = 1, cat_name = ''Groceries''\<rparr>"

definition grocery_budget :: budget where
  "grocery_budget = \<lparr>b_id = 7, b_user = 1, b_category = groceries, b_amount = 1000,
     b_start_date = \<lparr>year = 2024, month = 3, day = 1\<rparr>\<rparr>"

definition grocery_shopping :: "transaction list" where
  "grocery_shopping = [(mk_tx 1 950 ''expense'' ''market'')\<lparr>category := Some groceries\<rparr>]"

definition food :: category where
  "food = \<lparr>cat_id = 2, cat_name = ''Food''\<rparr>"

definition spend :: "int \<Rightarrow> int \<Rightarrow> real \<Rightarrow> transaction" where
  "spend i m a = (mk_tx i a ''expense'' ''shop'')
     \<lparr>category := Some food, tx_date := \<lparr>year = 2024, month = m, day = 5\<rparr>\<rparr>"

definition food_expenses :: "transaction list" where
  "food_expenses = [spend 1 3 200, spend 2 3 200, spend 3 3 200, spend 4 3 200, spend 5 3 200]"

definition zero_food_budget :: budget where
  "zero_food_budget = \<lparr>b_id = 3, b_user = 1, b_category = food, b_amount = 0,
     b_start_date = \<lparr>year = 2024, month = 3, day = 1\<rparr>\<rparr>"

definition half_year :: "transaction list" where
  "half_year = [spend 1 1 50, spend 2 1 50, spend 3 2 50, spend 4 2 50, spend 5 3 50,
                spend 6 3 50, spend 7 4 100, spend 8 4 100, spend 9 5 100, spend 10 5 100,
                spend 11 6 100, spend 12 6 100]"

definition model_a :: nb_model where
  "model_a = \<lparr>model_classes = [1, 2], predict_proba = (\<lambda>t. [0.9, 0.1])\<rparr>"

definition model_b :: nb_model where
  "model_b = \<lparr>model_classes = [2, 1], predict_proba = (\<lambda>t. [0.2, 0.8])\<rparr>"

definition names_a :: "int \<rightharpoonup> string" where
  "names_a = [1 \<mapsto> ''Groceries'', 2 \<mapsto> ''Food'']"

definition loaded_a_stored_b :: categorizer where
  "loaded_a_stored_b =
     \<lparr>model = Some model_a, categories = names_a, category_id_map = Map.empty,
      disk = Stored \<lparr>md_model = model_b, md_categories = names_a,
                     md_category_id_map = Map.empty\<rparr>\<rparr>"

definition shop :: "int \<Rightarrow> transaction" where
  "shop i = (mk_tx i 120 ''expense'' ''shop'')\<lparr>category := Some groceries\<rparr>"

definition small_world :: world where
  "small_world =
     \<lparr>db_transactions = [shop 1, shop 2, shop 3, shop 4, shop 5, shop 6, shop 7, shop 8,
                          shop 9, shop 10, mk_tx 11 900 ''expense'' ''Market''],
      db_categories = [groceries, food], db_budgets = [grocery_budget], db_anomalies = [],
      db_profiles = Map.empty,
      stored_model = Stored \<lparr>md_model = model_a, md_categories = names_a,
                              md_category_id_map = Map.empty\<rparr>\<rparr>"

definition no_fit :: pipeline_fit where
  "no_fit samples = None"

definition plain_reason :: determine_type where
  "plain_reason tx transactions = (''amount'', ''Unusual spending pattern'')"

section \<open>Verified properties\<close>

subsection \<open>Properties of the middleware\<close>

lemma startswith_slash: "startswith (CHR ''/'' # p) ''/''"
  by simp

lemma process_request_authenticated:
  "is_authenticated r \<Longrightarrow> process_request login r = None"
  by (simp add: process_request_def)

lemma process_request_any_rooted_path:
  "process_request login \<lparr>is_authenticated = a, path_info = CHR ''/'' # p, path = q\<rparr> = None"
  by (simp add: process_request_def exempt_urls_def)

text \<open>
  Claim C1. An unauthenticated request for a path outside the exempt list is to be redirected
  to the login page. The code does not do so: the entry \<open>'/'\<close> of \<open>exempt_urls\<close> is tested with
  \<open>startswith\<close>, and every path begins with \<open>/\<close>. At the unauthenticated request for
  \<open>/transactions/\<close>, which is none of the exempt paths, \<open>process_request\<close> returns \<open>None\<close>.
\<close>

theorem process_request_unauthenticated_not_redirected:
  "\<not> claimed_exempt ''/transactions/'' \<and>
   process_request ''/accounts/login/''
     \<lparr>is_authenticated = False, path_info = ''/transactions/'', path = ''/transactions/''\<rparr> = None"
  by (simp add: process_request_def exempt_urls_def claimed_exempt_def)

subsection \<open>Budget performance\<close>

text \<open>
  Claim C9. Whenever \<open>analyze_budget_performance\<close> returns \<open>success = True\<close>: \<open>remaining\<close> is the
  budget amount minus the total of the expenses in the budget's category; the status is
  \<open>over_budget\<close> exactly when \<open>percentage_used\<close> exceeds 100, \<open>at_risk\<close> exactly on [90, 100],
  \<open>warning\<close> exactly on [75, 90) and \<open>on_track\<close> exactly below 75; and a budget amount of 0
  gives \<open>percentage_used = 0\<close> and \<open>on_track\<close>, whatever was spent.
\<close>

theorem analyze_budget_performance_status:
  assumes "analyze_budget_performance today (Some b) txs = Performance p"
  shows "remaining p = b_amount b - sum_list (map amount (filter (in_budget_category b) txs))
    \<and> (status p = ''over_budget'' \<longleftrightarrow> percentage_used p > 100)
    \<and> (status p = ''at_risk'' \<longleftrightarrow> 90 \<le> percentage_used p \<and> percentage_used p \<le> 100)
    \<and> (status p = ''warning'' \<longleftrightarrow> 75 \<le> percentage_used p \<and> percentage_used p < 90)
    \<and> (status p = ''on_track'' \<longleftrightarrow> percentage_used p < 75)
    \<and> (b_amount b = 0 \<longrightarrow> percentage_used p = 0 \<and> status p = ''on_track'')"
  using assms
  by (auto simp: analyze_budget_performance_def Let_def split: if_splits)

lemma grocery_performance:
  "analyze_budget_performance \<lparr>year = 2024, month = 3, day = 10\<rparr> (Some grocery_budget)
     grocery_shopping =
   Performance \<lparr>perf_budget_id = 7, perf_category = ''Groceries'', perf_amount = 1000,
     spent = 950, remaining = 50, percentage_used = 95, status = ''at_risk'', daily_rate = 95,
     projected_total = 2850, projected_remaining = - 1850, days_elapsed = 10,
     days_in_period = 30\<rparr>"
  by (simp add: analyze_budget_performance_def grocery_budget_def grocery_shopping_def
      groceries_def mk_tx_def in_budget_category_def toordinal_def days_before_year_def
      days_before_month_def days_in_month_table_def is_leap_def Let_def)

theorem analyze_budget_performance_status_witness:
  "analyze_budget_performance \<lparr>year = 2024, month = 3, day = 10\<rparr> (Some grocery_budget)
     grocery_shopping \<noteq> Failure ''No budget or transactions provided''
   \<and> (\<exists>p. analyze_budget_performance \<lparr>year = 2024, month = 3, day = 10\<rparr> (Some grocery_budget)
            grocery_shopping = Performance p
          \<and> remaining p = 50 \<and> status p = ''at_risk'' \<and> percentage_used p = 95)"
  using analyze_budget_performance_status [OF grocery_performance] grocery_performance
  by simp

subsection \<open>Cash-flow insights\<close>

lemma total_of_type_nonneg:
  "\<forall>tx\<in>set txs. 0 \<le> amount tx \<Longrightarrow> 0 \<le> total_of_type ty txs"
  unfolding total_of_type_def by (rule sum_list_nonneg) auto

lemma total_of_type_absent:
  "\<forall>tx\<in>set txs. transaction_type tx \<noteq> ty \<Longrightarrow> total_of_type ty txs = 0"
  unfolding total_of_type_def by (induction txs) auto

text \<open>
  With all amounts non-negative \<open>generate_insights\<close> does not divide by zero: it returns a
  list of insights, not \<open>ZeroDivisionError\<close>. If moreover no transaction is an income, none
  of the returned insights is a percentage-of-income sentence.
\<close>

lemma generate_insights_nonnegative_amounts:
  assumes nonneg: "\<forall>tx\<in>set txs. 0 \<le> amount tx"
  shows "(\<exists>ins. generate_insights ci txs = Inr ins) \<and>
     ((\<forall>tx\<in>set txs. transaction_type tx \<noteq> ''income'') \<longrightarrow>
        (\<forall>ins. generate_insights ci txs = Inr ins \<longrightarrow> (\<forall>i\<in>set ins. \<not> percentage_of_income i)))"
proof -
  define inc where "inc = total_of_type ''income'' txs"
  define ex where "ex = total_of_type ''expense'' txs"
  have inc0: "0 \<le> inc" and ex0: "0 \<le> ex"
    using nonneg by (simp_all add: inc_def ex_def total_of_type_nonneg)
  have safe: "inc \<noteq> 0" if "\<not> inc - ex < 0" "inc - ex > inc * 0.2 \<or> inc - ex > 0"
    using that inc0 ex0 by auto
  have returns: "\<exists>ins. generate_insights ci txs = Inr ins"
    using safe
    unfolding generate_insights_def Let_def truediv_def inc_def[symmetric] ex_def[symmetric]
    by auto
  have none: "\<forall>i\<in>set ins. \<not> percentage_of_income i"
    if noinc: "\<forall>tx\<in>set txs. transaction_type tx \<noteq> ''income''"
      and r: "generate_insights ci txs = Inr ins" for ins
  proof -
    have z: "inc = 0" using noinc by (simp add: inc_def total_of_type_absent)
    show ?thesis
      using r ex0
      unfolding generate_insights_def Let_def truediv_def inc_def[symmetric] ex_def[symmetric] z
      by (auto split: if_splits)
  qed
  show ?thesis using returns none by blast
qed

lemma five_insights:
  "generate_insights [] five =
     Inr [\<lparr>insight_type = ''cash_flow'', message = ExpensesExceedIncome 1040,
           priority = ''high''\<rparr>]"
  by (simp add: generate_insights_def total_of_type_def five_def mk_tx_def Let_def)

lemma generate_insights_nonnegative_amounts_example:
  "generate_insights [] five =
       Inr [\<lparr>insight_type = ''cash_flow'', message = ExpensesExceedIncome 1040,
             priority = ''high''\<rparr>]
   \<and> \<not> percentage_of_income \<lparr>insight_type = ''cash_flow'',
          message = ExpensesExceedIncome 1040, priority = ''high''\<rparr>"
proof -
  have h: "\<forall>tx\<in>set five. 0 \<le> amount tx"
    by (simp add: five_def mk_tx_def)
  have n: "\<forall>tx\<in>set five. transaction_type tx \<noteq> ''income''"
    by (simp add: five_def mk_tx_def)
  from generate_insights_nonnegative_amounts [OF h, of "[]"] n five_insights
  show ?thesis by simp
qed

text \<open>
  The ratio is also evaluated without savings: the third branch tests
  \<open>net_flow > total_income * 0.2\<close> only, which holds at \<open>net_flow = 0\<close> when the total income is
  negative.
\<close>

lemma generate_insights_ratio_without_savings:
  "generate_insights [] [mk_tx 1 (- 100) ''income'' ''reversal'',
                         mk_tx 2 (- 100) ''expense'' ''refund''] =
     Inr [\<lparr>insight_type = ''cash_flow'', message = GreatJob 0 0, priority = ''low''\<rparr>]"
  by (simp add: generate_insights_def total_of_type_def truediv_def mk_tx_def Let_def)

text \<open>
  Claim C10. \<open>generate_insights\<close> is never to divide by zero, and for every input list with
  no income transactions it is to return without raising. The amount of a transaction has
  no validator and can be negative. For the single expense of \<open>-50\<close> and no income,
  \<open>total_income\<close> is 0 and \<open>net_flow\<close> is 50: the first two branches fail, the third branch
  \<open>net_flow > total_income * 0.2\<close> holds, and \<open>net_flow / total_income\<close> raises
  \<open>ZeroDivisionError\<close>.
\<close>

theorem generate_insights_divides_by_zero:
  "generate_insights [] [mk_tx 1 (- 50) ''expense'' ''refund''] = Inl ZeroDivisionError"
  by (simp add: generate_insights_def total_of_type_def truediv_def mk_tx_def Let_def)

subsection \<open>Anomaly detection\<close>

lemma fst_anomaly_settings: "fst (anomaly_settings u s) = min_amount_threshold u"
  by (simp add: anomaly_settings_def min_amount_threshold_def split: option.splits)

lemma row_id_prepare:
  "r \<in> set (prepare_transaction_data txs) \<Longrightarrow> \<exists>tx\<in>set txs. tx_id tx = row_id r"
  by (auto simp: prepare_transaction_data_def row_of_def)

lemma ten_detected:
  "detect_spending_anomalies threshold_forest None None (ten ''rent'') = [1]"
  by (simp add: detect_spending_anomalies_def threshold_forest_def ten_def mk_tx_def
      anomaly_settings_def prepare_transaction_data_def row_of_def category_frequency_def Let_def)

text \<open>
  Claim C8. \<open>detect_spending_anomalies\<close> returns the empty list when fewer than 10 of the
  input transactions are expenses, and every id it returns is the id of an input
  transaction of type \<open>expense\<close> whose amount is at least the minimum-amount threshold; the
  threshold is 100 when there is no user or the profile cannot be read.
\<close>

theorem detect_spending_anomalies_flags_large_expenses:
  "(length (filter (\<lambda>tx. transaction_type tx = ''expense'') txs) < 10 \<longrightarrow>
      detect_spending_anomalies f u s txs = []) \<and>
   (\<forall>i \<in> set (detect_spending_anomalies f u s txs).
      \<exists>tx \<in> set txs. tx_id tx = i \<and> transaction_type tx = ''expense'' \<and>
         amount tx \<ge> min_amount_threshold u) \<and>
   min_amount_threshold None = 100 \<and> min_amount_threshold (Some \<lparr>userprofile = None\<rparr>) = 100"
proof -
  have a: "length (filter (\<lambda>tx. transaction_type tx = ''expense'') txs) < 10 \<Longrightarrow>
      detect_spending_anomalies f u s txs = []"
    by (simp add: detect_spending_anomalies_def)
  have b: "\<exists>tx \<in> set txs. tx_id tx = i \<and> transaction_type tx = ''expense'' \<and>
         amount tx \<ge> min_amount_threshold u"
    if "i \<in> set (detect_spending_anomalies f u s txs)" for i
  proof -
    obtain m se where ms: "anomaly_settings u s = (m, se)" by (cases "anomaly_settings u s")
    then have m: "m = min_amount_threshold u" using fst_anomaly_settings[of u s] by simp
    let ?df = "prepare_transaction_data (filter (\<lambda>tx. amount tx \<ge> m)
                 (filter (\<lambda>tx. transaction_type tx = ''expense'') txs))"
    from that obtain r where "r \<in> set ?df" "row_id r = i"
      unfolding detect_spending_anomalies_def Let_def ms
      by (auto split: if_splits option.splits dest!: set_zip_leftD)
    then show ?thesis using m by (auto dest!: row_id_prepare)
  qed
  have c: "min_amount_threshold None = 100"
    "min_amount_threshold (Some \<lparr>userprofile = None\<rparr>) = 100"
    by (simp_all add: min_amount_threshold_def anomaly_settings_def)
  show ?thesis using a b c by blast
qed

theorem detect_spending_anomalies_flags_large_expenses_witness:
  "detect_spending_anomalies threshold_forest None None (ten ''rent'') = [1] \<and>
   (\<exists>tx \<in> set (ten ''rent''). tx_id tx = 1 \<and> transaction_type tx = ''expense'' \<and>
         amount tx \<ge> 100) \<and>
   detect_spending_anomalies threshold_forest None None five = []"
proof -
  have short: "length (filter (\<lambda>tx. transaction_type tx = ''expense'') five) < 10"
    by (simp add: five_def mk_tx_def)
  have one: "1 \<in> set (detect_spending_anomalies threshold_forest None None (ten ''rent''))"
    by (simp add: ten_detected)
  from detect_spending_anomalies_flags_large_expenses
         [of "ten ''rent''" threshold_forest None None] one
  have "\<exists>tx \<in> set (ten ''rent''). tx_id tx = 1 \<and> transaction_type tx = ''expense'' \<and>
         amount tx \<ge> 100"
    by metis
  moreover from detect_spending_anomalies_flags_large_expenses
                  [of five threshold_forest None None] short
  have "detect_spending_anomalies threshold_forest None None five = []"
    by blast
  ultimately show ?thesis using ten_detected by blast
qed

subsection \<open>Determinism of the anomaly flags\<close>

lemma zip_filter_ids:
  "(\<And>x. g (p x) = h (q x)) \<Longrightarrow>
   map (g \<circ> fst) (filter (\<lambda>(r, l). P l) (zip (map p xs) ls)) =
   map (h \<circ> fst) (filter (\<lambda>(k, l). P l) (zip (map q xs) ls))"
proof (induction xs arbitrary: ls)
  case Nil
  then show ?case by simp
next
  case (Cons x xs)
  then show ?case by (cases ls) auto
qed

lemma filter_amount_keys:
  "map anomaly_key (filter (\<lambda>tx. m \<le> amount tx) E) =
   filter (\<lambda>k. m \<le> fst (snd k)) (map anomaly_key E)"
  by (induction E) (auto simp: anomaly_key_def)

lemma frequency_keys:
  "length (filter (\<lambda>r'. row_category_id r' = Some c) (map row_of F)) =
   length (filter (\<lambda>k'. snd (snd k') = Some c) (map anomaly_key F))"
  by (induction F) (auto simp: anomaly_key_def row_of_def)

lemma features_keys:
  "map (\<lambda>r. (row_amount r, category_frequency (map row_of F) r)) (map row_of F) =
   map (\<lambda>k. (fst (snd k),
          case snd (snd k) of None \<Rightarrow> None
          | Some c \<Rightarrow> Some (length (filter (\<lambda>k'. snd (snd k') = Some c) (map anomaly_key F)))))
       (map anomaly_key F)"
proof -
  have "(row_amount (row_of tx), category_frequency (map row_of F) (row_of tx)) =
        (fst (snd (anomaly_key tx)),
          case snd (snd (anomaly_key tx)) of None \<Rightarrow> None
          | Some c \<Rightarrow> Some (length (filter (\<lambda>k'. snd (snd k') = Some c) (map anomaly_key F))))"
    for tx
  proof (cases "category tx")
    case None
    then show ?thesis by (simp add: category_frequency_def row_of_def anomaly_key_def)
  next
    case (Some a)
    have "category_frequency (map row_of F) (row_of tx) =
          Some (length (filter (\<lambda>r'. row_category_id r' = Some (cat_id a)) (map row_of F)))"
      using Some by (simp add: category_frequency_def row_of_def)
    moreover have "row_amount (row_of tx) = fst (snd (anomaly_key tx))"
      by (simp add: row_of_def anomaly_key_def)
    moreover have "snd (snd (anomaly_key tx)) = Some (cat_id a)"
      using Some by (simp add: anomaly_key_def)
    ultimately show ?thesis by (simp only: frequency_keys option.case)
  qed
  then show ?thesis by simp
qed

lemma detect_from_keys:
  "detect_spending_anomalies f u s txs =
   flagged_from f (fst (anomaly_settings u s)) (snd (anomaly_settings u s))
     (map anomaly_key (filter (\<lambda>tx. transaction_type tx = ''expense'') txs))"
proof -
  obtain m se where ms: "anomaly_settings u s = (m, se)" by (cases "anomaly_settings u s")
  define E where "E = filter (\<lambda>tx. transaction_type tx = ''expense'') txs"
  define F where "F = filter (\<lambda>tx. m \<le> amount tx) E"
  have ids: "map (row_id \<circ> fst) (filter (\<lambda>(r, l). l = - 1) (zip (map row_of F) ls)) =
             map (fst \<circ> fst) (filter (\<lambda>(k, l). l = - 1) (zip (map anomaly_key F) ls))"
    for ls :: "int list"
    by (rule zip_filter_ids) (simp add: row_of_def anomaly_key_def)
  have lhs: "detect_spending_anomalies f u s txs =
     (if length E < 10 then []
      else if map row_of F = [] then []
      else (case f 42 (0.05 * se)
                   (map (\<lambda>r. (row_amount r, category_frequency (map row_of F) r)) (map row_of F)) of
              None \<Rightarrow> []
            | Some labels \<Rightarrow>
                if length labels \<noteq> length (map row_of F) then []
                else map (row_id \<circ> fst) (filter (\<lambda>(r, l). l = - 1) (zip (map row_of F) labels))))"
    unfolding detect_spending_anomalies_def Let_def ms prod.case prepare_transaction_data_def
      E_def[symmetric] F_def[symmetric] ..
  have rhs: "flagged_from f m se (map anomaly_key E) =
     (if length E < 10 then []
      else if map anomaly_key F = [] then []
      else (case f 42 (0.05 * se)
                   (map (\<lambda>k. (fst (snd k),
                      case snd (snd k) of None \<Rightarrow> None
                      | Some c \<Rightarrow> Some (length (filter (\<lambda>k'. snd (snd k') = Some c)
                                                   (map anomaly_key F)))))
                     (map anomaly_key F)) of
              None \<Rightarrow> []
            | Some labels \<Rightarrow>
                if length labels \<noteq> length (map anomaly_key F) then []
                else map (fst \<circ> fst) (filter (\<lambda>(k, l). l = - 1) (zip (map anomaly_key F) labels))))"
    unfolding flagged_from_def Let_def filter_amount_keys[symmetric] F_def[symmetric] length_map ..
  show ?thesis
    unfolding lhs rhs ms fst_conv snd_conv E_def[symmetric] features_keys ids length_map
    by simp
qed

text \<open>
  Claim C2, as the code has it. The flags of \<open>detect_spending_anomalies\<close> are a function of
  the user's expense history as the forest sees it: two transaction lists whose expenses
  agree in id, amount and category, in the same order, get the same flags under the same
  settings and the same (seeded) forest, whatever else differs.
\<close>

theorem detect_spending_anomalies_deterministic:
  assumes "map anomaly_key (filter (\<lambda>tx. transaction_type tx = ''expense'') txs) =
           map anomaly_key (filter (\<lambda>tx. transaction_type tx = ''expense'') txs')"
  shows "detect_spending_anomalies f u s txs = detect_spending_anomalies f u s txs'"
  by (simp add: detect_from_keys assms)

theorem detect_spending_anomalies_deterministic_witness:
  "map anomaly_key (filter (\<lambda>tx. transaction_type tx = ''expense'') (ten ''rent'')) =
   map anomaly_key (filter (\<lambda>tx. transaction_type tx = ''expense'') (ten ''lease''))
   \<and> ten ''rent'' \<noteq> ten ''lease''
   \<and> detect_spending_anomalies threshold_forest None None (ten ''rent'') =
     detect_spending_anomalies threshold_forest None None (ten ''lease'')"
  using detect_spending_anomalies_deterministic
          [of "ten ''rent''" "ten ''lease''" threshold_forest None None]
  by (simp add: ten_def mk_tx_def anomaly_key_def)

text \<open>
  The endpoint \<open>get_anomalies\<close> does not have this property. On the same five stored
  transactions, a generator whose next numbers are 0 lists the transaction \<open>rent\<close> and a
  generator whose next numbers are 1 lists the transaction \<open>food\<close>.
\<close>

theorem get_anomalies_depends_on_generator:
  "map entry_description
     (listed (fst (get_anomalies random_sample (sconst 0) on_profile 1 five))) = [''rent'']
   \<and> map entry_description
     (listed (fst (get_anomalies random_sample (sconst 1) on_profile 1 five))) = [''food'']"
  by (simp add: get_anomalies_def random_sample_def five_def on_profile_def mk_tx_def
      randbelow_def choice_def randint_def reasons_def Let_def)

subsection \<open>Budget recommendations\<close>

lemma in_set_map_filter:
  "y \<in> set (List.map_filter g xs) \<longleftrightarrow> (\<exists>x\<in>set xs. g x = Some y)"
  by (induction xs) (auto split: option.splits)

lemma recommend_Some:
  assumes "recommend amounts item = Some r"
  shows "rec_category r = fst item" and "average_spending r = snd item"
    and "average_spending r \<ge> 100
    \<and> recommended_amount r = average_spending r * 1.1
    \<and> current_amount r = (case amounts (rec_category r) of None \<Rightarrow> 0 | Some a \<Rightarrow> a)
    \<and> (current_amount r > 0 \<longrightarrow>
          (recommended_amount r > current_amount r * 1.2 \<and> adjustment r = ''increase'') \<or>
          (current_amount r > recommended_amount r * 1.2 \<and> adjustment r = ''decrease''))
    \<and> (current_amount r \<le> 0 \<longrightarrow> adjustment r = ''new'')"
  using assms by (auto simp: recommend_def Let_def split: if_splits)

lemma sorted_descending:
  "sorted_wrt (\<lambda>a b. recommended_amount a \<ge> recommended_amount b)
     (sort_key (\<lambda>r. - recommended_amount r) recs)"
proof -
  have "sorted (map (\<lambda>r. - recommended_amount r) (sort_key (\<lambda>r. - recommended_amount r) recs))"
    by (rule sorted_sort_key)
  then show ?thesis by (simp add: sorted_map)
qed

lemma food_recommendation:
  "generate_budget_recommendations food_expenses [zero_food_budget] =
   Recommendations [\<lparr>rec_category = ''Food'', current_amount = 0, recommended_amount = 1100,
       average_spending = 1000, adjustment = ''new''\<rparr>]"
  by (simp add: generate_budget_recommendations_def food_expenses_def zero_food_budget_def
     spend_def mk_tx_def food_def categorized_expense_def expenses_data_def
     category_avgs_def category_total_def unique_months_def period_of_def
     current_budget_amounts_def recommend_def Let_def)

text \<open>
  Claim C6, as the code has it. With fewer than 5 categorized expenses the result has
  \<open>success = False\<close> and no recommendations, otherwise \<open>success = True\<close>. The list is sorted
  by \<open>recommended_amount\<close> in descending order, and every recommendation in it is for a
  category whose average monthly spending is at least 100, recommends 1.1 times that
  average, and carries as \<open>current_amount\<close> the amount of the last listed budget of that
  category name (0 without one). When this current amount is positive the recommendation
  is an \<open>increase\<close> with the recommended amount above 1.2 times the current one, or a
  \<open>decrease\<close> with the current amount above 1.2 times the recommended one; when it is not
  positive the adjustment is \<open>new\<close>.
\<close>

theorem generate_budget_recommendations_rules:
  "(length (filter categorized_expense txs) < 5 \<longrightarrow>
      \<not> rec_success (generate_budget_recommendations txs budgets) \<and>
      recommendations (generate_budget_recommendations txs budgets) = []) \<and>
   (length (filter categorized_expense txs) \<ge> 5 \<longrightarrow>
      rec_success (generate_budget_recommendations txs budgets)) \<and>
   sorted_wrt (\<lambda>a b. recommended_amount a \<ge> recommended_amount b)
      (recommendations (generate_budget_recommendations txs budgets)) \<and>
   (\<forall>r \<in> set (recommendations (generate_budget_recommendations txs budgets)).
      average_spending r = average_monthly_spending txs (rec_category r)
      \<and> average_spending r \<ge> 100
      \<and> recommended_amount r = average_spending r * 1.1
      \<and> current_amount r = current_budget_amount budgets (rec_category r)
      \<and> (current_amount r > 0 \<longrightarrow>
            (recommended_amount r > current_amount r * 1.2 \<and> adjustment r = ''increase'') \<or>
            (current_amount r > recommended_amount r * 1.2 \<and> adjustment r = ''decrease''))
      \<and> (current_amount r \<le> 0 \<longrightarrow> adjustment r = ''new''))"
proof -
  let ?R = "generate_budget_recommendations txs budgets"
  have few: "\<not> rec_success ?R \<and> recommendations ?R = []"
    if "length (filter categorized_expense txs) < 5"
    using that by (simp add: generate_budget_recommendations_def Let_def)
  have many: "rec_success ?R" if "length (filter categorized_expense txs) \<ge> 5"
  proof -
    from that have "txs \<noteq> []" by auto
    with that show ?thesis by (simp add: generate_budget_recommendations_def Let_def)
  qed
  have sorted: "sorted_wrt (\<lambda>a b. recommended_amount a \<ge> recommended_amount b)
      (recommendations ?R)"
    by (simp add: generate_budget_recommendations_def Let_def sorted_descending)
  have each: "average_spending r = average_monthly_spending txs (rec_category r)
      \<and> average_spending r \<ge> 100
      \<and> recommended_amount r = average_spending r * 1.1
      \<and> current_amount r = current_budget_amount budgets (rec_category r)
      \<and> (current_amount r > 0 \<longrightarrow>
            (recommended_amount r > current_amount r * 1.2 \<and> adjustment r = ''increase'') \<or>
            (current_amount r > recommended_amount r * 1.2 \<and> adjustment r = ''decrease''))
      \<and> (current_amount r \<le> 0 \<longrightarrow> adjustment r = ''new'')"
    if "r \<in> set (recommendations ?R)" for r
  proof -
    let ?df = "expenses_data (filter categorized_expense txs)"
    from that obtain item where item: "item \<in> set (category_avgs ?df)"
      and rec: "recommend (current_budget_amounts budgets) item = Some r"
      by (auto simp: generate_budget_recommendations_def Let_def in_set_map_filter
          split: if_splits)
    from item have "snd item = average_monthly_spending txs (fst item)"
      by (auto simp: category_avgs_def average_monthly_spending_def Let_def)
    then have A: "average_spending r = average_monthly_spending txs (rec_category r)"
      using recommend_Some(1,2)[OF rec] by simp
    show ?thesis
      using A recommend_Some(3)[OF rec] unfolding current_budget_amount_def by blast
  qed
  show ?thesis using few many sorted each by blast
qed

theorem generate_budget_recommendations_rules_witness:
  "length (filter categorized_expense food_expenses) \<ge> 5
   \<and> rec_success (generate_budget_recommendations food_expenses [zero_food_budget])
   \<and> recommendations (generate_budget_recommendations food_expenses [zero_food_budget]) =
       [\<lparr>rec_category = ''Food'', current_amount = 0, recommended_amount = 1100,
         average_spending = 1000, adjustment = ''new''\<rparr>]
   \<and> average_monthly_spending food_expenses ''Food'' = 1000
   \<and> current_budget_amount [zero_food_budget] ''Food'' = 0"
proof -
  have five: "length (filter categorized_expense food_expenses) \<ge> 5"
    by (simp add: food_expenses_def spend_def mk_tx_def categorized_expense_def)
  from generate_budget_recommendations_rules [of food_expenses "[zero_food_budget]"] five
  show ?thesis by (simp add: food_recommendation)
qed

text \<open>
  As the claim words it, a category with an existing budget is recommended as an
  \<open>increase\<close> or a \<open>decrease\<close>. A budget whose amount is 0 exists and is treated as absent:
  with five expenses of 200 in one month and a budget of 0 for their category, the
  recommended amount 1100 exceeds 1.2 times the current budget, and the adjustment is
  \<open>new\<close>.
\<close>

theorem zero_budget_recommended_as_new:
  "cat_name (b_category zero_food_budget) = ''Food'' \<and> b_amount zero_food_budget = 0 \<and>
   generate_budget_recommendations food_expenses [zero_food_budget] =
   Recommendations [\<lparr>rec_category = ''Food'', current_amount = 0, recommended_amount = 1100,
       average_spending = 1000, adjustment = ''new''\<rparr>]"
  by (simp add: food_recommendation) (simp add: zero_food_budget_def food_def)

subsection \<open>Spending forecast\<close>

lemma predict_monthly_spending_calls: "snd (predict_monthly_spending txs k) = []"
  by (simp add: predict_monthly_spending_def Let_def)

lemma predict_monthly_spending_nth:
  "i < length (fst (predict_monthly_spending txs k)) \<Longrightarrow>
   fst (predict_monthly_spending txs k) ! i =
     \<lparr>pred_month = fst (last (expense_totals txs)) + int (i + 1),
      pred_amount = tail3_mean (map snd (expense_totals txs)) *
                    trend_factor (map snd (expense_totals txs)) ^ (i + 1)\<rparr>"
  by (auto simp: predict_monthly_spending_def expense_totals_def Let_def
      simp del: upt_Suc split: if_splits)

lemma predict_monthly_spending_length:
  "length (fst (predict_monthly_spending txs k)) = 0 \<or>
   length (fst (predict_monthly_spending txs k)) = k"
  by (simp add: predict_monthly_spending_def Let_def del: upt_Suc)

lemma trend_factor_short: "length totals < 6 \<Longrightarrow> trend_factor totals = 1"
  by (simp add: trend_factor_def)

lemma half_year_forecast:
  "spending_forecast on_profile half_year =
   (Forecast [\<lparr>pred_month = 24294, pred_amount = 400\<rparr>, \<lparr>pred_month = 24295, pred_amount = 800\<rparr>,
              \<lparr>pred_month = 24296, pred_amount = 1600\<rparr>], [])"
  by (simp add: spending_forecast_def predict_monthly_spending_def half_year_def spend_def
      mk_tx_def on_profile_def prepare_transaction_data_def row_of_def monthly_totals_def
      period_of_def tail3_mean_def trend_factor_def mean_def food_def Let_def upt_rec)

lemma train_model_fits_random_forest:
  "length (filter (\<lambda>tx. transaction_type tx = ''expense'') stored) \<ge> 30 \<Longrightarrow>
   train_model stored = (True, [RandomForestFit])"
  by (auto simp: train_model_def Let_def)

text \<open>
  Claim C3, as the code has it. Neither forecast view fits an estimator. Every forecast
  they return is the mean of the last three monthly expense totals, multiplied for the
  \<open>i\<close>-th month ahead by the \<open>i\<close>-th power of the trend factor; \<open>spending_forecast\<close> returns
  none or three such months and \<open>spending_predictions\<close> none or six.
\<close>

theorem spending_forecast_is_moving_average:
  "snd (spending_forecast prof txs) = [] \<and> snd (spending_predictions txs) = [] \<and>
   (\<forall>ps. fst (spending_forecast prof txs) = Forecast ps \<longrightarrow>
      (ps = [] \<or> length ps = 3) \<and>
      (\<forall>i < length ps. pred_amount (ps ! i) =
          tail3_mean (map snd (expense_totals txs)) *
          trend_factor (map snd (expense_totals txs)) ^ (i + 1))) \<and>
   (fst (spending_predictions txs) = [] \<or> length (fst (spending_predictions txs)) = 6) \<and>
   (\<forall>i < length (fst (spending_predictions txs)).
      pred_amount (fst (spending_predictions txs) ! i) =
          tail3_mean (map snd (expense_totals txs)) *
          trend_factor (map snd (expense_totals txs)) ^ (i + 1))"
proof -
  have calls: "snd (spending_forecast prof txs) = []"
    using predict_monthly_spending_calls [of txs 3]
    by (auto simp: spending_forecast_def Let_def split: prod.splits)
  have calls6: "snd (spending_predictions txs) = []"
    by (simp add: spending_predictions_def predict_monthly_spending_calls)
  have three: "(ps = [] \<or> length ps = 3) \<and>
      (\<forall>i < length ps. pred_amount (ps ! i) =
          tail3_mean (map snd (expense_totals txs)) *
          trend_factor (map snd (expense_totals txs)) ^ (i + 1))"
    if "fst (spending_forecast prof txs) = Forecast ps" for ps
  proof -
    from that have ps: "ps = fst (predict_monthly_spending txs 3)"
      by (auto simp: spending_forecast_def Let_def split: if_splits prod.splits)
    show ?thesis
      using predict_monthly_spending_length [of txs 3]
      by (auto simp: ps predict_monthly_spending_nth)
  qed
  have six: "fst (spending_predictions txs) = [] \<or> length (fst (spending_predictions txs)) = 6"
    using predict_monthly_spending_length [of txs 6] by (simp add: spending_predictions_def)
  have six_nth: "\<forall>i < length (fst (spending_predictions txs)).
      pred_amount (fst (spending_predictions txs) ! i) =
          tail3_mean (map snd (expense_totals txs)) *
          trend_factor (map snd (expense_totals txs)) ^ (i + 1)"
    by (simp add: spending_predictions_def predict_monthly_spending_nth)
  show ?thesis using calls calls6 three six six_nth by blast
qed

lemma half_year_totals:
  "map snd (expense_totals half_year) = [100, 100, 100, 200, 200, 200]"
  by (simp add: expense_totals_def half_year_def spend_def mk_tx_def
      prepare_transaction_data_def row_of_def monthly_totals_def period_of_def food_def)

theorem spending_forecast_is_moving_average_witness:
  "fst (spending_forecast on_profile half_year) =
     Forecast [\<lparr>pred_month = 24294, pred_amount = 400\<rparr>, \<lparr>pred_month = 24295, pred_amount = 800\<rparr>,
               \<lparr>pred_month = 24296, pred_amount = 1600\<rparr>]
   \<and> tail3_mean (map snd (expense_totals half_year)) *
       trend_factor (map snd (expense_totals half_year)) ^ 3 = 1600
   \<and> snd (spending_forecast on_profile half_year) = []"
proof -
  let ?ps = "[\<lparr>pred_month = 24294, pred_amount = 400\<rparr>, \<lparr>pred_month = 24295, pred_amount = 800\<rparr>,
              \<lparr>pred_month = 24296, pred_amount = 1600\<rparr>]"
  have f: "fst (spending_forecast on_profile half_year) = Forecast ?ps"
    by (simp add: half_year_forecast)
  from spending_forecast_is_moving_average [of on_profile half_year] f
  have calls: "snd (spending_forecast on_profile half_year) = []"
    and each: "\<forall>i < length ?ps. pred_amount (?ps ! i) =
          tail3_mean (map snd (expense_totals half_year)) *
          trend_factor (map snd (expense_totals half_year)) ^ (i + 1)"
    by blast+
  from each have "pred_amount (?ps ! 2) =
          tail3_mean (map snd (expense_totals half_year)) *
          trend_factor (map snd (expense_totals half_year)) ^ (2 + 1)"
    by (metis length_Cons list.size(3) lessI numeral_2_eq_2)
  then have "tail3_mean (map snd (expense_totals half_year)) *
          trend_factor (map snd (expense_totals half_year)) ^ 3 = 1600"
    by simp
  with f calls show ?thesis by simp
qed

text \<open>
  As the claim words it, the forecast of the views comes out of a random forest regression.
  At a profile with insights enabled and twelve expenses over six months, \<open>spending_forecast\<close>
  returns the moving average 200 scaled by the powers of the trend factor 2, and has fitted
  no estimator.
\<close>

theorem spending_forecast_fits_no_random_forest:
  "RandomForestFit \<notin> set (snd (spending_forecast on_profile half_year)) \<and>
   fst (spending_forecast on_profile half_year) =
     Forecast [\<lparr>pred_month = 24294, pred_amount = 400\<rparr>, \<lparr>pred_month = 24295, pred_amount = 800\<rparr>,
               \<lparr>pred_month = 24296, pred_amount = 1600\<rparr>]"
  by (simp add: half_year_forecast)

subsection \<open>Helper lemmas for the categorizer\<close>




subsection \<open>Frame lemmas for the views\<close>

lemma find_Some_holds: "find P xs = Some x \<Longrightarrow> P x \<and> x \<in> set xs"
  by (induction xs) (auto split: if_splits)

lemma get_or_create_frame:
  "db_transactions (snd (get_or_create w u)) = db_transactions w"
  "db_categories (snd (get_or_create w u)) = db_categories w"
  "db_budgets (snd (get_or_create w u)) = db_budgets w"
  "db_anomalies (snd (get_or_create w u)) = db_anomalies w"
  "stored_model (snd (get_or_create w u)) = stored_model w"
  by (simp_all add: get_or_create_def split: option.splits)

lemma categorize_transaction_world:
  "snd (categorize_transaction fit w u i) = w \<or>
   snd (categorize_transaction fit w u i) = snd (get_or_create w u) \<or>
   (\<exists>f. snd (categorize_transaction fit w u i) = (snd (get_or_create w u))\<lparr>stored_model := f\<rparr>)"
proof (cases "find (\<lambda>t. tx_id t = i \<and> tx_user t = u) (db_transactions w)")
  case None
  then show ?thesis by (simp add: categorize_transaction_def)
next
  case (Some tx)
  obtain prof w1 where g: "get_or_create w u = (prof, w1)" by (cases "get_or_create w u")
  show ?thesis
  proof (cases "enable_ai_categorization prof")
    case False
    with Some g show ?thesis by (simp add: categorize_transaction_def)
  next
    case True
    let ?training = "filter (\<lambda>t. tx_user t = u \<and> category t \<noteq> None \<and> tx_id t \<noteq> i)
                       (db_transactions w1)"
    show ?thesis
    proof (cases "train fit (new_categorizer (stored_model w1)) ?training False")
      case (Inl e)
      with Some g True show ?thesis by (simp add: categorize_transaction_def)
    next
      case (Inr r)
      obtain trained c1 where r: "r = (trained, c1)" by (cases r)
      have "snd (categorize_transaction fit w u i) = w1\<lparr>stored_model := disk c1\<rparr>"
        using Some g True Inr r
        by (simp add: categorize_transaction_def Let_def
            split: sum.splits prod.splits option.splits)
      then show ?thesis using g by auto
    qed
  qed
qed

lemma categorize_transaction_frame:
  "db_transactions (snd (categorize_transaction fit w u i)) = db_transactions w \<and>
   db_categories (snd (categorize_transaction fit w u i)) = db_categories w \<and>
   db_budgets (snd (categorize_transaction fit w u i)) = db_budgets w \<and>
   db_anomalies (snd (categorize_transaction fit w u i)) = db_anomalies w"
  using categorize_transaction_world [of fit w u i]
  by (elim disjE exE) (simp_all add: get_or_create_frame)

lemma categorized_from_id: "categorized_from u cats t t' \<Longrightarrow> tx_id t' = tx_id t"
  by (auto simp: categorized_from_def)

lemma distinct_ids_eq:
  assumes "distinct (map tx_id rows)" "t \<in> set rows" "tx \<in> set rows" "tx_id t = tx_id tx"
  shows "t = tx"
proof -
  from assms(1) have "inj_on tx_id (set rows)" by (simp add: distinct_map)
  with assms(2-4) show ?thesis by (rule_tac inj_onD)
qed

lemma save_transaction_keeps:
  assumes d: "distinct (map tx_id rows0)"
    and tx: "tx \<in> set rows0" "category tx = None" "tx_user tx = u"
    and k: "k \<in> set cats"
    and inv: "list_all2 (categorized_from u cats) rows0 (db_transactions w)"
  shows "list_all2 (categorized_from u cats) rows0
           (db_transactions (save_transaction w (tx\<lparr>category := Some k, ai_categorized := True\<rparr>)))"
proof -
  let ?tx' = "tx\<lparr>category := Some k, ai_categorized := True\<rparr>"
  have step: "categorized_from u cats t (if tx_id r = tx_id ?tx' then ?tx' else r)"
    if "t \<in> set rows0" "r \<in> set (db_transactions w)" "categorized_from u cats t r" for t r
  proof (cases "tx_id r = tx_id ?tx'")
    case True
    then have "tx_id t = tx_id tx" using categorized_from_id[OF that(3)] by simp
    then have "t = tx" using d that(1) tx(1) by (rule_tac distinct_ids_eq)
    then show ?thesis using True tx k by (auto simp: categorized_from_def)
  next
    case False
    then show ?thesis using that by simp
  qed
  have "list_all2 (\<lambda>t r. categorized_from u cats t (if tx_id r = tx_id ?tx' then ?tx' else r))
          rows0 (db_transactions w)"
    using inv step by (rule list.rel_mono_strong)
  then show ?thesis by (simp add: save_transaction_def list_all2_map2)
qed

lemma save_transaction_frame:
  "db_categories (save_transaction w tx) = db_categories w"
  "db_budgets (save_transaction w tx) = db_budgets w"
  "db_anomalies (save_transaction w tx) = db_anomalies w"
  by (simp_all add: save_transaction_def)

lemma auto_loop_frame:
  assumes "distinct (map tx_id rows0)"
    and "set todo \<subseteq> set rows0" and "\<forall>t\<in>set todo. category t = None \<and> tx_user t = u"
    and "list_all2 (categorized_from u (db_categories w)) rows0 (db_transactions w)"
  shows "list_all2 (categorized_from u (db_categories w)) rows0
           (db_transactions (fst (snd (auto_loop c w todo results)))) \<and>
         db_categories (fst (snd (auto_loop c w todo results))) = db_categories w \<and>
         db_budgets (fst (snd (auto_loop c w todo results))) = db_budgets w \<and>
         db_anomalies (fst (snd (auto_loop c w todo results))) = db_anomalies w"
  using assms
proof (induction todo arbitrary: c w results)
  case Nil
  then show ?case by simp
next
  case (Cons tx rest)
  show ?case
  proof (cases "predict c (description tx)")
    case (Inl e)
    with Cons.prems(4) show ?thesis by simp
  next
    case (Inr r)
    obtain cid name conf c' where r: "r = ((cid, name, conf), c')" by (cases r) auto
    have rest: "set rest \<subseteq> set rows0" "\<forall>t\<in>set rest. category t = None \<and> tx_user t = u"
      using Cons.prems(2,3) by auto
    have skip: ?thesis if "auto_loop c w (tx # rest) results = auto_loop c' w rest results"
      unfolding that using Cons.IH[OF Cons.prems(1) rest Cons.prems(4)] .
    show ?thesis
    proof (cases cid)
      case None
      show ?thesis by (rule skip) (simp add: Inr r None)
    next
      case (Some i)
      show ?thesis
      proof (cases "i = 0")
        case True
        show ?thesis by (rule skip) (simp add: Inr r Some True)
      next
        case False
        show ?thesis
        proof (cases "find (\<lambda>k. cat_id k = i) (db_categories w)")
          case None
          show ?thesis by (rule skip) (simp add: Inr r Some False None)
        next
          case found: (Some k)
          let ?w = "save_transaction w (tx\<lparr>category := Some k, ai_categorized := True\<rparr>)"
          have k: "k \<in> set (db_categories w)"
            using find_Some_holds[OF found] by simp
          have tx: "tx \<in> set rows0" "category tx = None" "tx_user tx = u"
            using Cons.prems(2,3) by auto
          have inv: "list_all2 (categorized_from u (db_categories ?w)) rows0 (db_transactions ?w)"
            using save_transaction_keeps[OF Cons.prems(1) tx k Cons.prems(4)]
            by (simp add: save_transaction_frame)
          have eq: "auto_loop c w (tx # rest) results =
                    auto_loop c' ?w rest (results @ [\<lparr>ar_transaction_id = tx_id tx,
                                      ar_description = description tx,
                                      ar_category_name = name,
                                      ar_confidence = conf\<rparr>])"
            by (simp add: Inr r Some False found)
          show ?thesis
            unfolding eq
            using Cons.IH[OF Cons.prems(1) rest inv, of c'] 
            by (simp add: save_transaction_frame)
        qed
      qed
    qed
  qed
qed

lemma snd_loop_result:
  "snd (case x of (Some e, w3, results) \<Rightarrow> (Inl e, w3)
        | (None, w3, results) \<Rightarrow> (Inr (g results), w3)) = fst (snd x)"
  by (cases x; cases "fst x") auto

lemma auto_categorize_world:
  "snd (auto_categorize_transactions fit w u) = snd (get_or_create w u) \<or>
   (\<exists>c f. snd (auto_categorize_transactions fit w u) =
      fst (snd (auto_loop c ((snd (get_or_create w u))\<lparr>stored_model := f\<rparr>)
         (filter (\<lambda>t. tx_user t = u \<and> category t = None)
            (db_transactions (snd (get_or_create w u)))) [])))"
proof -
  obtain prof w1 where g: "get_or_create w u = (prof, w1)" by (cases "get_or_create w u")
  let ?training = "filter (\<lambda>t. tx_user t = u \<and> category t \<noteq> None) (db_transactions w1)"
  let ?unc = "filter (\<lambda>t. tx_user t = u \<and> category t = None) (db_transactions w1)"
  show ?thesis
  proof (cases "\<not> enable_ai_categorization prof \<or> length ?training < 10 \<or> ?unc = []")
    case True
    then have "snd (auto_categorize_transactions fit w u) = w1"
      by (auto simp: auto_categorize_transactions_def g Let_def)
    then show ?thesis by (simp add: g)
  next
    case False
    show ?thesis
    proof (cases "train fit (new_categorizer (stored_model w1)) ?training False")
      case (Inl e)
      with False have "snd (auto_categorize_transactions fit w u) = w1"
        by (simp add: auto_categorize_transactions_def g Let_def)
      then show ?thesis by (simp add: g)
    next
      case (Inr r)
      obtain trained c1 where r: "r = (trained, c1)" by (cases r)
      have "snd (auto_categorize_transactions fit w u) =
            fst (snd (auto_loop c1 (w1\<lparr>stored_model := disk c1\<rparr>) ?unc []))"
        using False Inr r
        by (simp add: auto_categorize_transactions_def g Let_def snd_loop_result)
      then show ?thesis using g by auto
    qed
  qed
qed

lemma auto_categorize_frame:
  assumes d: "distinct (map tx_id (db_transactions w))"
  shows "list_all2 (categorized_from u (db_categories w)) (db_transactions w)
           (db_transactions (snd (auto_categorize_transactions fit w u))) \<and>
         db_categories (snd (auto_categorize_transactions fit w u)) = db_categories w \<and>
         db_budgets (snd (auto_categorize_transactions fit w u)) = db_budgets w \<and>
         db_anomalies (snd (auto_categorize_transactions fit w u)) = db_anomalies w"
proof -
  let ?w1 = "snd (get_or_create w u)"
  let ?rows = "db_transactions w"
  let ?unc = "filter (\<lambda>t. tx_user t = u \<and> category t = None) ?rows"
  have refl: "list_all2 (categorized_from u (db_categories w)) ?rows ?rows"
    by (rule list.rel_refl) (simp add: categorized_from_def)
  from auto_categorize_world [of fit w u]
  show ?thesis
  proof (elim disjE exE)
    assume "snd (auto_categorize_transactions fit w u) = ?w1"
    then show ?thesis using refl by (simp add: get_or_create_frame)
  next
    fix c f
    let ?w2 = "?w1\<lparr>stored_model := f\<rparr>"
    assume res: "snd (auto_categorize_transactions fit w u) =
      fst (snd (auto_loop c ?w2 (filter (\<lambda>t. tx_user t = u \<and> category t = None)
            (db_transactions ?w1)) []))"
    have inv: "list_all2 (categorized_from u (db_categories ?w2)) ?rows (db_transactions ?w2)"
      using refl by (simp add: get_or_create_frame)
    have sub: "set ?unc \<subseteq> set ?rows" "\<forall>t\<in>set ?unc. category t = None \<and> tx_user t = u"
      by auto
    from auto_loop_frame[OF d sub inv, of c "[]"]
    show ?thesis unfolding res by (simp add: get_or_create_frame)
  qed
qed

lemma detect_anomalies_ids:
  assumes "d \<in> set (detect_anomalies f usr txs)"
  shows "an_id d \<in> set (detect_spending_anomalies f usr None txs)"
proof -
  from assms obtain i where i: "i \<in> set (detect_spending_anomalies f usr None txs)"
    and d: "(case find (\<lambda>t. tx_id t = i) txs of None \<Rightarrow> None
             | Some tx \<Rightarrow> Some \<lparr>an_id = tx_id tx, an_date = tx_date tx,
                  an_description = description tx, an_amount = amount tx,
                  an_category = (case category tx of None \<Rightarrow> ''Uncategorized''
                                 | Some c \<Rightarrow> cat_name c),
                  an_reason = ''Unusual spending pattern''\<rparr>) = Some d"
    unfolding detect_anomalies_def in_set_map_filter by blast
  from d obtain tx where tx: "find (\<lambda>t. tx_id t = i) txs = Some tx" and "an_id d = tx_id tx"
    by (cases "find (\<lambda>t. tx_id t = i) txs") auto
  moreover from find_Some_holds[OF tx] have "tx_id tx = i" by simp
  ultimately show ?thesis using i by simp
qed

lemma build_anomalies_ids:
  "a \<in> set (build_anomalies det w u existing txs ds acc) \<Longrightarrow>
   a \<in> set acc \<or> tx_id (a_transaction a) \<in> an_id ` set ds"
proof (induction ds arbitrary: acc)
  case Nil
  then show ?case by simp
next
  case (Cons d ds)
  show ?case
  proof (cases "find (\<lambda>t. tx_id t = an_id d \<and> tx_user t = u) (db_transactions w)")
    case None
    with Cons.prems have "a \<in> set (build_anomalies det w u existing txs ds acc)" by simp
    from Cons.IH[OF this] show ?thesis by auto
  next
    case (Some tx)
    have id: "tx_id tx = an_id d" using find_Some_holds[OF Some] by simp
    obtain st aid score where e:
      "(case find (\<lambda>e. sa_transaction e = tx_id tx) existing of
           None \<Rightarrow> (''new'', int (length acc) + 1, 0)
         | Some e \<Rightarrow> (if is_verified e then ''reviewed'' else ''new'', sa_id e,
                      sa_anomaly_score e)) = (st, aid, score)"
      by (rule prod_cases3)
    obtain ty reason where t: "det tx txs = (ty, reason)" by (cases "det tx txs")
    let ?new = "\<lparr>a_id = aid, a_transaction = tx, a_type = ty, a_reason = reason,
                  a_status = st, a_score = score\<rparr>"
    have "build_anomalies det w u existing txs (d # ds) acc =
          build_anomalies det w u existing txs ds (acc @ [?new])"
      by (simp add: Some e t)
    with Cons.prems have "a \<in> set (build_anomalies det w u existing txs ds (acc @ [?new]))"
      by simp
    from Cons.IH[OF this] show ?thesis using id by auto
  qed
qed

lemma create_anomaly_frame:
  "db_transactions (create_anomaly w u a) = db_transactions w"
  "db_categories (create_anomaly w u a) = db_categories w"
  "db_budgets (create_anomaly w u a) = db_budgets w"
  "\<exists>n. db_anomalies (create_anomaly w u a) = db_anomalies w @ [n] \<and> sa_user n = u \<and>
       \<not> is_verified n \<and> sa_transaction n = tx_id (a_transaction a)"
  by (simp_all add: create_anomaly_def)

lemma save_new_anomalies_frame:
  "db_transactions (save_new_anomalies u ex w as) = db_transactions w \<and>
   db_categories (save_new_anomalies u ex w as) = db_categories w \<and>
   db_budgets (save_new_anomalies u ex w as) = db_budgets w \<and>
   (\<exists>new. db_anomalies (save_new_anomalies u ex w as) = db_anomalies w @ new \<and>
      (\<forall>n\<in>set new. sa_user n = u \<and> \<not> is_verified n \<and> sa_transaction n \<notin> set ex \<and>
          sa_transaction n \<in> (\<lambda>a. tx_id (a_transaction a)) ` set as))"
proof (induction as arbitrary: w)
  case Nil
  then show ?case by simp
next
  case (Cons a as)
  show ?case
  proof (cases "tx_id (a_transaction a) \<notin> set ex")
    case True
    let ?w = "create_anomaly w u a"
    have eq: "save_new_anomalies u ex w (a # as) = save_new_anomalies u ex ?w as"
      using True by simp
    from Cons.IH[of ?w] obtain new where
      new: "db_anomalies (save_new_anomalies u ex ?w as) = db_anomalies ?w @ new"
        "\<forall>n\<in>set new. sa_user n = u \<and> \<not> is_verified n \<and> sa_transaction n \<notin> set ex \<and>
          sa_transaction n \<in> (\<lambda>a. tx_id (a_transaction a)) ` set as"
      and frame: "db_transactions (save_new_anomalies u ex ?w as) = db_transactions ?w"
         "db_categories (save_new_anomalies u ex ?w as) = db_categories ?w"
         "db_budgets (save_new_anomalies u ex ?w as) = db_budgets ?w"
      by blast
    from create_anomaly_frame(4)[of w u a] obtain n0 where
      n0: "db_anomalies ?w = db_anomalies w @ [n0]"
      "sa_user n0 = u" "\<not> is_verified n0" "sa_transaction n0 = tx_id (a_transaction a)"
      by blast
    have app: "db_anomalies (save_new_anomalies u ex ?w as) = db_anomalies w @ (n0 # new)"
      using new(1) n0(1) by simp
    have all: "\<forall>n\<in>set (n0 # new). sa_user n = u \<and> \<not> is_verified n \<and>
          sa_transaction n \<notin> set ex \<and>
          sa_transaction n \<in> (\<lambda>a. tx_id (a_transaction a)) ` set (a # as)"
      using new(2) n0(2-4) True by auto
    show ?thesis
      unfolding eq frame create_anomaly_frame(1-3) using app all by blast
  next
    case False
    then have eq: "save_new_anomalies u ex w (a # as) = save_new_anomalies u ex w as"
      by simp
    from Cons.IH[of w] show ?thesis unfolding eq by auto
  qed
qed

lemma anomaly_detection_frame:
  "db_transactions (snd (anomaly_detection f det w u usr today days sf)) = db_transactions w \<and>
   db_categories (snd (anomaly_detection f det w u usr today days sf)) = db_categories w \<and>
   db_budgets (snd (anomaly_detection f det w u usr today days sf)) = db_budgets w \<and>
   (\<exists>new. db_anomalies (snd (anomaly_detection f det w u usr today days sf)) =
             db_anomalies w @ new \<and>
      (\<forall>n\<in>set new. sa_user n = u \<and> \<not> is_verified n \<and>
          sa_transaction n \<in> set (detect_spending_anomalies f (Some usr) None
                                    (period_transactions w u today days)) \<and>
          sa_transaction n \<notin> sa_transaction ` {e \<in> set (db_anomalies w). sa_user e = u}))"
proof -
  obtain prof w1 where g: "get_or_create w u = (prof, w1)" by (cases "get_or_create w u")
  have w1: "db_transactions w1 = db_transactions w" "db_categories w1 = db_categories w"
    "db_budgets w1 = db_budgets w" "db_anomalies w1 = db_anomalies w"
    using get_or_create_frame[of w u] by (simp_all add: g)
  show ?thesis
  proof (cases "enable_ai_insights prof")
    case False
    then have "snd (anomaly_detection f det w u usr today days sf) = w1"
      by (simp add: anomaly_detection_def Let_def g)
    then show ?thesis by (simp add: w1)
  next
    case True
    let ?txs = "period_transactions w u today days"
    let ?ex = "filter (\<lambda>a. sa_user a = u) (db_anomalies w1)"
    let ?list = "build_anomalies det w1 u ?ex ?txs (detect_anomalies f (Some usr) ?txs) []"
    let ?w2 = "save_new_anomalies u (map sa_transaction ?ex) w1 ?list"
    have w': "snd (anomaly_detection f det w u usr today days sf) = ?w2"
      using True by (simp add: anomaly_detection_def Let_def g)
    have ids: "tx_id (a_transaction a) \<in> set (detect_spending_anomalies f (Some usr) None ?txs)"
      if "a \<in> set ?list" for a
    proof -
      from build_anomalies_ids[OF that]
      obtain d where "d \<in> set (detect_anomalies f (Some usr) ?txs)"
        "tx_id (a_transaction a) = an_id d" by auto
      then show ?thesis using detect_anomalies_ids[of d f "Some usr" ?txs] by simp
    qed
    from save_new_anomalies_frame[of u "map sa_transaction ?ex" w1 ?list]
    obtain new where new: "db_anomalies ?w2 = db_anomalies w1 @ new"
       "\<forall>n\<in>set new. sa_user n = u \<and> \<not> is_verified n \<and>
            sa_transaction n \<notin> set (map sa_transaction ?ex) \<and>
            sa_transaction n \<in> (\<lambda>a. tx_id (a_transaction a)) ` set ?list"
      and frame: "db_transactions ?w2 = db_transactions w1"
        "db_categories ?w2 = db_categories w1" "db_budgets ?w2 = db_budgets w1"
      by blast
    have each: "\<forall>n\<in>set new. sa_user n = u \<and> \<not> is_verified n \<and>
            sa_transaction n \<in> set (detect_spending_anomalies f (Some usr) None ?txs) \<and>
            sa_transaction n \<notin> sa_transaction ` {e \<in> set (db_anomalies w). sa_user e = u}"
    proof
      fix n assume n: "n \<in> set new"
      with new(2) have a: "sa_user n = u" "\<not> is_verified n"
        "sa_transaction n \<notin> set (map sa_transaction ?ex)"
        "sa_transaction n \<in> (\<lambda>a. tx_id (a_transaction a)) ` set ?list" by auto
      from a(4) ids have "sa_transaction n \<in> set (detect_spending_anomalies f (Some usr) None ?txs)"
        by auto
      moreover from a(3) have
        "sa_transaction n \<notin> sa_transaction ` {e \<in> set (db_anomalies w). sa_user e = u}"
        by (auto simp: w1)
      ultimately show "sa_user n = u \<and> \<not> is_verified n \<and>
            sa_transaction n \<in> set (detect_spending_anomalies f (Some usr) None ?txs) \<and>
            sa_transaction n \<notin> sa_transaction ` {e \<in> set (db_anomalies w). sa_user e = u}"
        using a(1,2) by simp
    qed
    have t: "db_transactions ?w2 = db_transactions w" using frame(1) w1(1) by simp
    have c: "db_categories ?w2 = db_categories w" using frame(2) w1(2) by simp
    have b: "db_budgets ?w2 = db_budgets w" using frame(3) w1(3) by simp
    have an: "db_anomalies ?w2 = db_anomalies w @ new" using new(1) w1(4) by simp
    show ?thesis
      unfolding w' using t c b an each by blast
  qed
qed

subsection \<open>Evaluation on the example data\<close>

lemma market_text: "preprocess_text ''Market'' = ''market''"
  by code_simp



lemma small_world_distinct: "distinct (map tx_id (db_transactions small_world))"
  by (simp add: small_world_def shop_def mk_tx_def)

lemma small_world_profile:
  "get_or_create small_world 1 =
     (default_profile, small_world\<lparr>db_profiles := [1 \<mapsto> default_profile]\<rparr>)"
  by (simp add: get_or_create_def small_world_def)

lemma small_world_train:
  "train fit (new_categorizer (stored_model small_world)) txs False =
     Inr (None, \<lparr>model = Some model_a, categories = names_a, category_id_map = Map.empty,
                 disk = stored_model small_world\<rparr>)"
  by (simp add: train_def new_categorizer_def load_model_def small_world_def)

lemma small_world_predict:
  "predict \<lparr>model = Some model_a, categories = names_a, category_id_map = Map.empty,
            disk = f\<rparr> ''Market'' =
     Inr ((Some 1, Some ''Groceries'', 0.9),
          \<lparr>model = Some model_a, categories = names_a, category_id_map = Map.empty, disk = f\<rparr>)"
  unfolding predict_def market_text
  by (simp add: ensure_model_def model_a_def names_a_def argmax_def min_confidence_def Let_def)

lemma small_world_auto:
  "db_transactions (snd (auto_categorize_transactions fit small_world 1)) =
     [shop 1, shop 2, shop 3, shop 4, shop 5, shop 6, shop 7, shop 8, shop 9, shop 10,
      (mk_tx 11 900 ''expense'' ''Market'')\<lparr>category := Some groceries, ai_categorized := True\<rparr>]"
proof -
  let ?w1 = "small_world\<lparr>db_profiles := [1 \<mapsto> default_profile]\<rparr>"
  have rows: "db_transactions ?w1 = db_transactions small_world" by simp
  have unc: "filter (\<lambda>t. tx_user t = 1 \<and> category t = None) (db_transactions small_world) =
             [mk_tx 11 900 ''expense'' ''Market'']"
    by (simp add: small_world_def shop_def mk_tx_def)
  have tr: "\<not> length (filter (\<lambda>t. tx_user t = 1 \<and> category t \<noteq> None)
              (db_transactions small_world)) < 10"
    by (simp add: small_world_def shop_def mk_tx_def)
  have d: "description (mk_tx 11 900 ''expense'' ''Market'') = ''Market''"
    by (simp add: mk_tx_def)
  have cats: "find (\<lambda>k. cat_id k = 1) (db_categories small_world) = Some groceries"
    by (simp add: small_world_def groceries_def)
  have "snd (auto_categorize_transactions fit small_world 1) =
        save_transaction (?w1\<lparr>stored_model := stored_model small_world\<rparr>)
          ((mk_tx 11 900 ''expense'' ''Market'')\<lparr>category := Some groceries,
             ai_categorized := True\<rparr>)"
    using tr
    by (simp add: auto_categorize_transactions_def small_world_profile Let_def rows unc
        small_world_train d small_world_predict cats default_profile_def)
  then show ?thesis
    by (simp add: save_transaction_def) (simp add: small_world_def shop_def mk_tx_def)
qed

lemma small_world_anomalies:
  "map sa_transaction (db_anomalies (snd (anomaly_detection threshold_forest plain_reason
      small_world 1 \<lparr>userprofile = None\<rparr> \<lparr>year = 2024, month = 3, day = 10\<rparr> 30 ''all''))) = [11]"
proof -
  let ?today = "\<lparr>year = 2024, month = 3, day = 10\<rparr>"
  have period: "period_transactions small_world 1 ?today 30 = db_transactions small_world"
    by (simp add: period_transactions_def small_world_def shop_def mk_tx_def toordinal_def
        days_before_year_def days_before_month_def days_in_month_table_def is_leap_def Let_def)
  have flagged: "detect_spending_anomalies threshold_forest (Some \<lparr>userprofile = None\<rparr>) None
      (db_transactions small_world) = [11]"
    by (simp add: detect_spending_anomalies_def threshold_forest_def small_world_def shop_def
        mk_tx_def anomaly_settings_def prepare_transaction_data_def row_of_def
        category_frequency_def groceries_def Let_def)
  have found: "find (\<lambda>t. tx_id t = 11) (db_transactions small_world) =
               Some (mk_tx 11 900 ''expense'' ''Market'')"
    by (simp add: small_world_def shop_def mk_tx_def)
  have found': "find (\<lambda>t. tx_id t = 11 \<and> tx_user t = 1) (db_transactions small_world) =
               Some (mk_tx 11 900 ''expense'' ''Market'')"
    by (simp add: small_world_def shop_def mk_tx_def)
  have none: "db_anomalies small_world = []" by (simp add: small_world_def)
  have id: "tx_id (mk_tx 11 900 ''expense'' ''Market'') = 11" by (simp add: mk_tx_def)
  show ?thesis
    by (simp add: anomaly_detection_def small_world_profile Let_def period detect_anomalies_def
        flagged found found' none id default_profile_def plain_reason_def create_anomaly_def)
qed

subsection \<open>Predictions of the categorizer\<close>



subsection \<open>Persistence of the categorizer\<close>

text \<open>
  Claim C7, as the code has it. After \<open>_save_model\<close> has written the model of a categorizer
  that has one, \<open>_load_model\<close> on any categorizer reading that file succeeds and restores
  the same model, categories and \<open>category_id_map\<close>. \<open>train\<close> with \<open>force_retrain=False\<close> does
  not retrain when a model is loaded or the file exists: with a model loaded it returns
  and leaves the categorizer as it is; with none loaded and the file present it does what
  \<open>_load_model\<close> does.
\<close>

theorem categorizer_persistence:
  "(model s \<noteq> None \<longrightarrow> disk s2 = disk (save_model s) \<longrightarrow>
      fst (load_model s2) \<and> model (snd (load_model s2)) = model s \<and>
      categories (snd (load_model s2)) = categories s \<and>
      category_id_map (snd (load_model s2)) = category_id_map s) \<and>
   (model s \<noteq> None \<longrightarrow> train fit s txs False = Inr (None, s)) \<and>
   (model s = None \<longrightarrow> disk s \<noteq> NoFile \<longrightarrow>
      train fit s txs False = Inr (None, snd (load_model s)))"
  by (auto simp: save_model_def load_model_def train_def)

theorem categorizer_persistence_witness:
  "model (snd (load_model (save_model loaded_a_stored_b))) = Some model_a
   \<and> categories (snd (load_model (save_model loaded_a_stored_b))) = names_a
   \<and> train no_fit loaded_a_stored_b [] False = Inr (None, loaded_a_stored_b)
   \<and> model (new_categorizer (disk loaded_a_stored_b)) = None
   \<and> train no_fit (new_categorizer (disk loaded_a_stored_b)) [] False =
       Inr (None, snd (load_model (new_categorizer (disk loaded_a_stored_b))))"
proof -
  have m: "model loaded_a_stored_b \<noteq> None" by (simp add: loaded_a_stored_b_def)
  have n: "model (new_categorizer (disk loaded_a_stored_b)) = None"
    by (simp add: new_categorizer_def)
  have f: "disk (new_categorizer (disk loaded_a_stored_b)) \<noteq> NoFile"
    by (simp add: new_categorizer_def loaded_a_stored_b_def)
  from categorizer_persistence
         [of loaded_a_stored_b "save_model loaded_a_stored_b" no_fit "[]"]
       categorizer_persistence
         [of "new_categorizer (disk loaded_a_stored_b)" loaded_a_stored_b no_fit "[]"]
       m n f
  show ?thesis by (simp add: loaded_a_stored_b_def)
qed

text \<open>
  As the claim words it, \<open>train\<close> with \<open>force_retrain=False\<close> loads the persisted model
  whenever a model is already loaded. With the model \<open>model_a\<close> loaded and another model,
  \<open>model_b\<close>, in the file, \<open>train\<close> returns with \<open>model_a\<close> still in place; loading would have
  put \<open>model_b\<close> there.
\<close>

theorem train_keeps_loaded_model:
  "train no_fit loaded_a_stored_b [] False = Inr (None, loaded_a_stored_b) \<and>
   model loaded_a_stored_b = Some model_a \<and>
   model (snd (load_model loaded_a_stored_b)) = Some model_b \<and> model_a \<noteq> model_b"
  by (simp add: train_def loaded_a_stored_b_def load_model_def model_a_def model_b_def)

subsection \<open>What the views write\<close>

text \<open>
  The write-back of the views. In a database whose transaction ids are distinct:
  \<open>categorize_transaction\<close> leaves every transaction, category, budget and anomaly row as
  it was, whether it returns a response or raises;
  \<open>auto_categorize_transactions\<close> leaves categories, budgets and anomalies as they were and
  each transaction row either unchanged or, for an uncategorized row of the user, with
  \<open>category\<close> set to a stored category and \<open>ai_categorized\<close> set to \<open>True\<close> and nothing else
  changed; \<open>anomaly_detection\<close> leaves transactions, categories and budgets as they were
  and appends to the anomalies only unverified records of the user for transactions
  that the detection flagged and that had no anomaly record of the user before.
\<close>

lemma analytics_views_write_back:
  assumes "distinct (map tx_id (db_transactions w))"
  shows
   "(db_transactions (snd (categorize_transaction fit w u i)) = db_transactions w \<and>
     db_categories (snd (categorize_transaction fit w u i)) = db_categories w \<and>
     db_budgets (snd (categorize_transaction fit w u i)) = db_budgets w \<and>
     db_anomalies (snd (categorize_transaction fit w u i)) = db_anomalies w) \<and>
    (list_all2 (categorized_from u (db_categories w)) (db_transactions w)
        (db_transactions (snd (auto_categorize_transactions fit w u))) \<and>
     db_categories (snd (auto_categorize_transactions fit w u)) = db_categories w \<and>
     db_budgets (snd (auto_categorize_transactions fit w u)) = db_budgets w \<and>
     db_anomalies (snd (auto_categorize_transactions fit w u)) = db_anomalies w) \<and>
    (db_transactions (snd (anomaly_detection f det w u usr today days sf)) = db_transactions w \<and>
     db_categories (snd (anomaly_detection f det w u usr today days sf)) = db_categories w \<and>
     db_budgets (snd (anomaly_detection f det w u usr today days sf)) = db_budgets w \<and>
     (\<exists>new. db_anomalies (snd (anomaly_detection f det w u usr today days sf)) =
               db_anomalies w @ new \<and>
        (\<forall>n\<in>set new. sa_user n = u \<and> \<not> is_verified n \<and>
            sa_transaction n \<in> set (detect_spending_anomalies f (Some usr) None
                                      (period_transactions w u today days)) \<and>
            sa_transaction n \<notin> sa_transaction ` {e \<in> set (db_anomalies w). sa_user e = u})))"
  using categorize_transaction_frame [of fit w u i] auto_categorize_frame [OF assms, of u fit]
    anomaly_detection_frame [of f det w u usr today days sf]
  by blast

lemma analytics_views_write_back_example:
  "distinct (map tx_id (db_transactions small_world))
   \<and> db_transactions (snd (auto_categorize_transactions no_fit small_world 1)) =
     [shop 1, shop 2, shop 3, shop 4, shop 5, shop 6, shop 7, shop 8, shop 9, shop 10,
      (mk_tx 11 900 ''expense'' ''Market'')\<lparr>category := Some groceries, ai_categorized := True\<rparr>]
   \<and> list_all2 (categorized_from 1 (db_categories small_world)) (db_transactions small_world)
        (db_transactions (snd (auto_categorize_transactions no_fit small_world 1)))
   \<and> db_transactions (snd (categorize_transaction no_fit small_world 1 11)) =
       db_transactions small_world
   \<and> map sa_transaction (db_anomalies (snd (anomaly_detection threshold_forest plain_reason
        small_world 1 \<lparr>userprofile = None\<rparr> \<lparr>year = 2024, month = 3, day = 10\<rparr> 30 ''all''))) =
       [11]"
  using analytics_views_write_back [OF small_world_distinct, of no_fit 1 11 threshold_forest
          plain_reason "\<lparr>userprofile = None\<rparr>" "\<lparr>year = 2024, month = 3, day = 10\<rparr>" 30 "''all''"]
    small_world_distinct small_world_auto [of no_fit] small_world_anomalies
  by simp

lemma small_world_categorize:
  "categorize_transaction fit small_world 1 11 =
     (Inl TypeError, small_world\<lparr>db_profiles := [1 \<mapsto> default_profile]\<rparr>)"
proof -
  have found: "find (\<lambda>t. tx_id t = 11 \<and> tx_user t = 1) (db_transactions small_world) =
               Some (mk_tx 11 900 ''expense'' ''Market'')"
    by (simp add: small_world_def shop_def mk_tx_def)
  have d: "description (mk_tx 11 900 ''expense'' ''Market'') = ''Market''"
    by (simp add: mk_tx_def)
  have cats: "find (\<lambda>k. cat_id k = 1) (db_categories small_world) = Some groceries"
    by (simp add: small_world_def groceries_def)
  show ?thesis
    by (simp add: categorize_transaction_def found small_world_profile Let_def
        small_world_train d small_world_predict cats default_profile_def)
qed

text \<open>
  Claim C4. The views write back predicted categories and anomaly flags only (the lemma
  \<open>analytics_views_write_back\<close> above), and \<open>categorize_transaction\<close> is to return its
  prediction without modifying the transaction. It modifies nothing, but it does not return
  the prediction: for the uncategorized transaction 11 of user 1, which the stored model
  assigns to the existing category 1 with confidence 0.9, the view raises \<open>TypeError\<close> while
  building its response, and the transactions are as before.
\<close>

theorem categorize_transaction_raises_type_error:
  "fst (categorize_transaction no_fit small_world 1 11) = Inl TypeError \<and>
   db_transactions (snd (categorize_transaction no_fit small_world 1 11)) =
     db_transactions small_world"
  by (simp add: small_world_categorize)

end
